theory Spec2Isabelle
  imports Complex_Main "HOL-Library.Word" "HOL-Library.List_Lexorder" "HOL-Library.Char_ord"
begin

unbundle bit_operations_syntax

section \<open>Error values\<close>

text \<open>
  Go's \<^verbatim>\<open>error\<close> interface, as far as \<^verbatim>\<open>jwt_agent.go\<close> can tell its values apart:
  \<^item> \<open>New msg\<close>: \<^verbatim>\<open>errors.New(msg)\<close> and \<^verbatim>\<open>errors.Errorf(...)\<close> of github.com/pkg/errors,
    with the formatted message;
  \<^item> \<open>Wrap err msg\<close>: \<^verbatim>\<open>errors.Wrap(err, msg)\<close> for a non-nil \<open>err\<close>;
  \<^item> \<open>ValidationError inner errs\<close>: a \<^verbatim>\<open>*jwt.ValidationError\<close> with its \<^verbatim>\<open>Inner\<close> error and
    its \<^verbatim>\<open>Errors\<close> bit field (a uint32);
  \<^item> \<open>Foreign msg\<close>: an error made by any other package (os, encoding/json, crypto/x509,
    crypto/rsa, the standard errors package), known by its message only.
  The type assertion \<^verbatim>\<open>err.(*jwt.ValidationError)\<close> succeeds on the third constructor only.
\<close>

datatype error =
    New string
  | Wrap error string
  | ValidationError (Inner: "error option") (Errors: "32 word")
  | Foreign string

definition ErrTokenExpired :: error where
  "ErrTokenExpired = New ''jwt: token expired''"


definition issuerClaim :: string where "issuerClaim = ''iss''"
definition subjectClaim :: string where "subjectClaim = ''sub''"
definition expirationClaim :: string where "expirationClaim = ''exp''"
definition jwtIdClaim :: string where "jwtIdClaim = ''jti''"

definition ErrMsgPrivKeyReadFailed :: string where
  "ErrMsgPrivKeyReadFailed = ''failed to read server private key file''"

definition ErrMsgPrivKeyNotPEMEncoded :: string where
  "ErrMsgPrivKeyNotPEMEncoded = ''server private key not PEM-encoded''"

definition ErrMsgCreateTokenFailed :: string where
  "ErrMsgCreateTokenFailed = ''failed to create token''"

section \<open>Keys and key loading\<close>

type_synonym bytes = "8 word list"

text \<open>\<^verbatim>\<open>rsa.PublicKey\<close> and \<^verbatim>\<open>rsa.PrivateKey\<close>; the private key embeds its public key.\<close>

record PublicKey =
  rsa_N :: int
  rsa_E :: int

record PrivateKey =
  PublicKey :: PublicKey
  rsa_D :: int
  rsa_Primes :: "int list"

text \<open>\<^verbatim>\<open>pem.Block\<close>.\<close>

record pem_Block =
  Type :: string
  Headers :: "(string \<times> string) list"
  Bytes :: bytes

text \<open>
  What \<^verbatim>\<open>getRSAPrivKey\<close> calls in the standard library, taken as parameters: the file
  system behind \<^verbatim>\<open>ioutil.ReadFile\<close> (the error's message, or the contents), \<^verbatim>\<open>pem.Decode\<close>
  (the first block if there is one, and the rest of the input) and
  \<^verbatim>\<open>x509.ParsePKCS1PrivateKey\<close> (the error's message, or the key).
\<close>

record stdlib =
  ReadFile :: "string \<Rightarrow> string + bytes"
  pem_Decode :: "bytes \<Rightarrow> pem_Block option \<times> bytes"
  ParsePKCS1PrivateKey :: "bytes \<Rightarrow> string + PrivateKey"

text \<open>The message built by \<^verbatim>\<open>errors.Errorf\<close> at lines 132-133.\<close>

definition unknownKeyTypeMsg :: "string \<Rightarrow> string \<Rightarrow> string" where
  "unknownKeyTypeMsg got want =
     ''unknown server private key type; got: '' @ got @ '', want: '' @ want"

definition getRSAPrivKey :: "stdlib \<Rightarrow> string \<Rightarrow> error + PrivateKey" where
  "getRSAPrivKey S privKeyPath =
     (case ReadFile S privKeyPath of
        Inl err \<Rightarrow> Inl (Wrap (Foreign err) ErrMsgPrivKeyReadFailed)
      | Inr pemData \<Rightarrow>
          (case fst (pem_Decode S pemData) of
             None \<Rightarrow> Inl (New ErrMsgPrivKeyNotPEMEncoded)
           | Some block \<Rightarrow>
               (let got = Type block; want = ''RSA PRIVATE KEY'' in
                if got \<noteq> want then Inl (New (unknownKeyTypeMsg got want))
                else (case ParsePKCS1PrivateKey S (Bytes block) of
                        Inl err \<Rightarrow> Inl (Foreign err)
                      | Inr key \<Rightarrow> Inr key))))"

record JWTAgentConfig =
  ServerPrivKeyPath :: string
  ExpirationTimeout :: "64 word"
  Issuer :: string

record JWTAgent =
  privKey :: PrivateKey
  issuer :: string
  expTimeout :: "64 word"

definition NewJWTAgent :: "stdlib \<Rightarrow> JWTAgentConfig \<Rightarrow> error + JWTAgent" where
  "NewJWTAgent S c =
     (case getRSAPrivKey S (ServerPrivKeyPath c) of
        Inl err \<Rightarrow> Inl err
      | Inr priv \<Rightarrow>
          Inr \<lparr>privKey = priv, issuer = Issuer c, expTimeout = ExpirationTimeout c\<rparr>)"

section \<open>The JWT library, as far as the agent uses it\<close>

text \<open>
  The agent calls github.com/dgrijalva/jwt-go (\<^verbatim>\<open>jwt.NewWithClaims\<close>, \<^verbatim>\<open>Token.SignedString\<close>,
  \<^verbatim>\<open>jwt.Parse\<close>) and github.com/satori/go.uuid. They are not part of this repository. This
  section is the environment the agent runs in: the library's data types, the order in
  which \<^verbatim>\<open>jwt.Parse\<close> makes its checks, and its claim validation. Encoding, decoding and
  the cryptography stay parameters (\<open>jwt_lib\<close>).
\<close>

text \<open>
  The registered signing methods by their Go type. \<^verbatim>\<open>token.Method.(*jwt.SigningMethodRSA)\<close>
  succeeds on the first constructor only: \<^verbatim>\<open>*SigningMethodRSAPSS\<close> is a type of its own.
\<close>

datatype SigningMethod =
    SigningMethodRSA string
  | SigningMethodRSAPSS string
  | SigningMethodHMAC string
  | SigningMethodECDSA string
  | SigningMethodNone

fun Alg :: "SigningMethod \<Rightarrow> string" where
  "Alg (SigningMethodRSA name) = name"
| "Alg (SigningMethodRSAPSS name) = name"
| "Alg (SigningMethodHMAC name) = name"
| "Alg (SigningMethodECDSA name) = name"
| "Alg SigningMethodNone = ''none''"

fun isSigningMethodRSA :: "SigningMethod \<Rightarrow> bool" where
  "isSigningMethodRSA (SigningMethodRSA name) = True"
| "isSigningMethodRSA m = False"

definition SigningMethodRS256 :: SigningMethod where
  "SigningMethodRS256 = SigningMethodRSA ''RS256''"

text \<open>
  A finite float64, by its value: every finite float64 is a rational number (a 53 bit
  integer times a power of two), and what is proved here for every rational number holds
  for every float64. \<^verbatim>\<open>encoding/json\<close> decodes every JSON number to a float64; a number too
  large for a finite float64 is a decoding error.
\<close>

type_synonym float64 = rat

text \<open>
  Go's conversion \<^verbatim>\<open>int64(f)\<close>: the fraction is cut off (towards zero). When the result does
  not fit an int64, the Go specification leaves the value to the implementation (amd64
  gives the least int64): it is the parameter \<open>out_of_range\<close>.
\<close>

definition float64_trunc :: "float64 \<Rightarrow> int" where
  "float64_trunc f = (if 0 \<le> f then \<lfloor>f\<rfloor> else \<lceil>f\<rceil>)"

definition int64_of_float64 :: "(float64 \<Rightarrow> 64 word) \<Rightarrow> float64 \<Rightarrow> 64 word" where
  "int64_of_float64 out_of_range f =
     (let n = float64_trunc f
      in if - (2 ^ 63) \<le> n \<and> n < 2 ^ 63 then word_of_int n else out_of_range f)"

text \<open>
  The float64 that \<^verbatim>\<open>encoding/json\<close> decodes from the decimal digits of an integer of at most
  64 bits: the nearest float64, a tie going to the even mantissa. \<open>k\<close> is the number of
  low bits that do not fit the 53 bits of the mantissa, \<open>q'\<close> the mantissa after rounding.
\<close>

definition float64_of_int :: "int \<Rightarrow> float64" where
  "float64_of_int n =
     (let a = \<bar>n\<bar>;
          k = length (filter (\<lambda>i. 2 ^ (53 + i) \<le> a) [0..<11]);
          q = a div 2 ^ k;
          r = a mod 2 ^ k;
          q' = (if 2 ^ k < 2 * r \<or> (2 * r = 2 ^ k \<and> odd q) then q + 1 else q)
      in of_int (sgn n * q' * 2 ^ k))"

text \<open>A decoded JSON value (\<^verbatim>\<open>interface{}\<close> after \<^verbatim>\<open>json.Unmarshal\<close>).\<close>

datatype json =
    JNull
  | JBool bool
  | JNumber float64
  | JString string
  | JArray "json list"
  | JObject "(string \<times> json) list"

record StandardClaims =
  Audience :: string
  ExpiresAt :: "64 word"
  Id :: string
  IssuedAt :: "64 word"
  Issuer :: string
  NotBefore :: "64 word"
  Subject :: string

datatype Claims =
    MapClaims "string \<rightharpoonup> json"
  | OfStandardClaims StandardClaims

text \<open>\<^verbatim>\<open>jwt.Token\<close>. \<open>Method\<close> is never nil in a token that reaches the key function.\<close>

record jwt_Token =
  Raw :: string
  Method :: SigningMethod
  Header :: "string \<rightharpoonup> json"
  Claims :: Claims
  Signature :: string
  Valid :: bool

text \<open>The bits of \<^verbatim>\<open>ValidationError.Errors\<close>: \<^verbatim>\<open>1 << iota\<close>, in the library's order.\<close>

definition ValidationErrorMalformed :: "32 word" where "ValidationErrorMalformed = 1"
definition ValidationErrorUnverifiable :: "32 word" where "ValidationErrorUnverifiable = 2"
definition ValidationErrorSignatureInvalid :: "32 word" where "ValidationErrorSignatureInvalid = 4"
definition ValidationErrorAudience :: "32 word" where "ValidationErrorAudience = 8"
definition ValidationErrorExpired :: "32 word" where "ValidationErrorExpired = 16"
definition ValidationErrorIssuedAt :: "32 word" where "ValidationErrorIssuedAt = 32"
definition ValidationErrorIssuer :: "32 word" where "ValidationErrorIssuer = 64"
definition ValidationErrorNotValidYet :: "32 word" where "ValidationErrorNotValidYet = 128"
definition ValidationErrorId :: "32 word" where "ValidationErrorId = 256"
definition ValidationErrorClaimsInvalid :: "32 word" where "ValidationErrorClaimsInvalid = 512"

text \<open>
  The library's primitives:
  \<^item> \<open>ParseUnverified\<close>: splits the token string at its two dots, decodes header and claims
    and looks the \<^verbatim>\<open>alg\<close> header up among the registered methods; it answers a
    \<open>ValidationError\<close> (malformed, or unverifiable when \<^verbatim>\<open>alg\<close> is missing or not
    registered), or the decoded token and the three segments;
  \<^item> \<open>SigningString\<close>: the encoded header and claims of a token, joined by a dot (or the
    message of the JSON encoder's error);
  \<^item> \<open>Sign\<close> and \<open>Verify\<close>: \<^verbatim>\<open>SigningMethod.Sign\<close> and \<^verbatim>\<open>SigningMethod.Verify\<close>;
  \<^item> \<open>int64_out_of_range\<close>: what the platform makes of \<^verbatim>\<open>int64(f)\<close> for a float64 beyond the
    range of int64.
\<close>

record jwt_lib =
  ParseUnverified :: "string \<Rightarrow> error + jwt_Token \<times> string \<times> string \<times> string"
  SigningString :: "jwt_Token \<Rightarrow> string + string"
  Sign :: "SigningMethod \<Rightarrow> string \<Rightarrow> PrivateKey \<Rightarrow> string + string"
  Verify :: "SigningMethod \<Rightarrow> string \<Rightarrow> string \<Rightarrow> PublicKey \<Rightarrow> string option"
  int64_out_of_range :: "float64 \<Rightarrow> 64 word"

text \<open>The library's three comparisons, on int64: the order is the signed one.\<close>

definition verifyExp :: "64 word \<Rightarrow> 64 word \<Rightarrow> bool \<Rightarrow> bool" where
  "verifyExp e now required = (if e = 0 then \<not> required else sint now \<le> sint e)"

definition verifyIat :: "64 word \<Rightarrow> 64 word \<Rightarrow> bool \<Rightarrow> bool" where
  "verifyIat iat now required = (if iat = 0 then \<not> required else sint iat \<le> sint now)"

definition verifyNbf :: "64 word \<Rightarrow> 64 word \<Rightarrow> bool \<Rightarrow> bool" where
  "verifyNbf nbf now required = (if nbf = 0 then \<not> required else sint nbf \<le> sint now)"

text \<open>
  The checks of \<^verbatim>\<open>MapClaims\<close>: a claim that is a JSON number is converted with
  \<^verbatim>\<open>int64(...)\<close> and compared; a claim that is missing or no number passes unless required.
\<close>

definition VerifyExpiresAt :: "jwt_lib \<Rightarrow> (string \<rightharpoonup> json) \<Rightarrow> 64 word \<Rightarrow> bool \<Rightarrow> bool" where
  "VerifyExpiresAt L m cmp req =
     (case m ''exp'' of
        Some (JNumber f) \<Rightarrow> verifyExp (int64_of_float64 (int64_out_of_range L) f) cmp req
      | _ \<Rightarrow> \<not> req)"

definition VerifyIssuedAt :: "jwt_lib \<Rightarrow> (string \<rightharpoonup> json) \<Rightarrow> 64 word \<Rightarrow> bool \<Rightarrow> bool" where
  "VerifyIssuedAt L m cmp req =
     (case m ''iat'' of
        Some (JNumber f) \<Rightarrow> verifyIat (int64_of_float64 (int64_out_of_range L) f) cmp req
      | _ \<Rightarrow> \<not> req)"

definition VerifyNotBefore :: "jwt_lib \<Rightarrow> (string \<rightharpoonup> json) \<Rightarrow> 64 word \<Rightarrow> bool \<Rightarrow> bool" where
  "VerifyNotBefore L m cmp req =
     (case m ''nbf'' of
        Some (JNumber f) \<Rightarrow> verifyNbf (int64_of_float64 (int64_out_of_range L) f) cmp req
      | _ \<Rightarrow> \<not> req)"

text \<open>
  \<^verbatim>\<open>MapClaims.Valid\<close> at the time \<open>now\<close>: each of the three time claims that fails sets
  its bit; nil when no bit is set.
\<close>

definition MapClaims_Valid :: "jwt_lib \<Rightarrow> (string \<rightharpoonup> json) \<Rightarrow> 64 word \<Rightarrow> error option" where
  "MapClaims_Valid L m now =
     (let vErr = ValidationError None 0;
          vErr = (if \<not> VerifyExpiresAt L m now False
                  then ValidationError (Some (Foreign ''Token is expired''))
                         (Errors vErr OR ValidationErrorExpired)
                  else vErr);
          vErr = (if \<not> VerifyIssuedAt L m now False
                  then ValidationError (Some (Foreign ''Token used before issued''))
                         (Errors vErr OR ValidationErrorIssuedAt)
                  else vErr);
          vErr = (if \<not> VerifyNotBefore L m now False
                  then ValidationError (Some (Foreign ''Token is not valid yet''))
                         (Errors vErr OR ValidationErrorNotValidYet)
                  else vErr)
      in if Errors vErr = 0 then None else Some vErr)"

definition StandardClaims_Valid :: "StandardClaims \<Rightarrow> 64 word \<Rightarrow> error option" where
  "StandardClaims_Valid c now =
     (let vErr = ValidationError None 0;
          vErr = (if \<not> verifyExp (ExpiresAt c) now False
                  then ValidationError (Some (Foreign ''token is expired''))
                         (Errors vErr OR ValidationErrorExpired)
                  else vErr);
          vErr = (if \<not> verifyIat (IssuedAt c) now False
                  then ValidationError (Some (Foreign ''Token used before issued''))
                         (Errors vErr OR ValidationErrorIssuedAt)
                  else vErr);
          vErr = (if \<not> verifyNbf (NotBefore c) now False
                  then ValidationError (Some (Foreign ''token is not valid yet''))
                         (Errors vErr OR ValidationErrorNotValidYet)
                  else vErr)
      in if Errors vErr = 0 then None else Some vErr)"

fun Claims_Valid :: "jwt_lib \<Rightarrow> Claims \<Rightarrow> 64 word \<Rightarrow> error option" where
  "Claims_Valid L (MapClaims m) now = MapClaims_Valid L m now"
| "Claims_Valid L (OfStandardClaims c) now = StandardClaims_Valid c now"

text \<open>
  \<^verbatim>\<open>jwt.Parse(tokenString, keyFunc)\<close> at the time \<open>now\<close>
  (\<^verbatim>\<open>Parser.ParseWithClaims\<close> with default options). The order of the checks is the point:
  decoding and the method lookup first; then the key function, whose error ends the
  parse as unverifiable; then the claims; then the signature, whose failure is added to
  the bits the claims have set; the token is valid if no bit is set.
\<close>

definition Parse ::
  "jwt_lib \<Rightarrow> 64 word \<Rightarrow> string \<Rightarrow> (jwt_Token \<Rightarrow> error + PublicKey) \<Rightarrow> error + jwt_Token" where
  "Parse L now tokenString keyFunc =
     (case ParseUnverified L tokenString of
        Inl err \<Rightarrow> Inl err
      | Inr (token, p0, p1, p2) \<Rightarrow>
          (case keyFunc token of
             Inl err \<Rightarrow>
               (case err of
                  ValidationError i e \<Rightarrow> Inl err
                | _ \<Rightarrow> Inl (ValidationError (Some err) ValidationErrorUnverifiable))
           | Inr key \<Rightarrow>
               (let vErr = (case Claims_Valid L (Claims token) now of
                              None \<Rightarrow> ValidationError None 0
                            | Some err \<Rightarrow>
                                (case err of
                                   ValidationError i e \<Rightarrow> err
                                 | _ \<Rightarrow> ValidationError (Some err) ValidationErrorClaimsInvalid));
                    token = token\<lparr>Signature := p2\<rparr>;
                    vErr = (case Verify L (Method token) (p0 @ ''.'' @ p1) (Signature token) key of
                              Some err \<Rightarrow>
                                ValidationError (Some (Foreign err))
                                  (Errors vErr OR ValidationErrorSignatureInvalid)
                            | None \<Rightarrow> vErr)
                in if Errors vErr = 0 then Inr (token\<lparr>Valid := True\<rparr>) else Inl vErr)))"

text \<open>\<^verbatim>\<open>jwt.NewWithClaims\<close> and \<^verbatim>\<open>Token.SignedString\<close>.\<close>

definition NewWithClaims :: "SigningMethod \<Rightarrow> Claims \<Rightarrow> jwt_Token" where
  "NewWithClaims method claims =
     \<lparr>Raw = '''', Method = method,
      Header = [''typ'' \<mapsto> JString ''JWT'', ''alg'' \<mapsto> JString (Alg method)],
      Claims = claims, Signature = '''', Valid = False\<rparr>"

definition SignedString :: "jwt_lib \<Rightarrow> jwt_Token \<Rightarrow> PrivateKey \<Rightarrow> error + string" where
  "SignedString L t key =
     (case SigningString L t of
        Inl err \<Rightarrow> Inl (Foreign err)
      | Inr sstr \<Rightarrow>
          (case Sign L (Method t) sstr key of
             Inl err \<Rightarrow> Inl (Foreign err)
           | Inr sig \<Rightarrow> Inr (sstr @ ''.'' @ sig)))"

text \<open>
  \<^verbatim>\<open>uuid.UUID\<close> is sixteen bytes. \<^verbatim>\<open>uuid.NewV4\<close> fills them from the random source and
  then sets the version, the high half of byte 6, to 4 and the variant, the two high bits
  of byte 8, to binary 10. \<^verbatim>\<open>UUID.String\<close> writes the bytes in hexadecimal, in groups of
  4, 2, 2, 2 and 6 bytes with dashes between.
\<close>

type_synonym UUID = bytes

definition SetVersion :: "8 word \<Rightarrow> UUID \<Rightarrow> UUID" where
  "SetVersion v u = u[6 := (u ! 6 AND 0x0f) OR push_bit 4 v]"

definition SetVariant :: "UUID \<Rightarrow> UUID" where
  "SetVariant u = u[8 := (u ! 8 AND 0x3f) OR 0x80]"

definition NewV4 :: "bytes \<Rightarrow> UUID" where
  "NewV4 random = SetVariant (SetVersion 4 random)"

definition hexdigit :: "nat \<Rightarrow> char" where
  "hexdigit n = ''0123456789abcdef'' ! (n mod 16)"

definition hex_Encode :: "bytes \<Rightarrow> string" where
  "hex_Encode bs = concat (map (\<lambda>b. [hexdigit (unat b div 16), hexdigit (unat b mod 16)]) bs)"

definition uuid_String :: "UUID \<Rightarrow> string" where
  "uuid_String u =
     hex_Encode (take 4 u) @ ''-'' @ hex_Encode (take 2 (drop 4 u)) @ ''-'' @
     hex_Encode (take 2 (drop 6 u)) @ ''-'' @ hex_Encode (take 2 (drop 8 u)) @ ''-'' @
     hex_Encode (drop 10 u)"

section \<open>The token agent\<close>

text \<open>
  Modelled from the spec: the type \<^verbatim>\<open>Token\<close> and its constructor \<^verbatim>\<open>NewToken\<close> are declared in
  a file of the repository that is not among the sources. The spec's data model gives a
  token its id (the jti), its subject and its issued string; \<^verbatim>\<open>NewToken\<close> takes them in
  this order.
\<close>

record Token =
  tok_id :: string
  tok_subject :: string
  tok_issuedString :: string

definition NewToken :: "string \<Rightarrow> string \<Rightarrow> string \<Rightarrow> Token" where
  "NewToken jti devId tokenString =
     \<lparr>tok_id = jti, tok_subject = devId, tok_issuedString = tokenString\<rparr>"

text \<open>
  The two impure calls of the agent are arguments: \<open>now\<close> is what \<^verbatim>\<open>time.Now().Unix()\<close>
  returns during the call, \<open>random\<close> the sixteen bytes that the random source hands to
  \<^verbatim>\<open>uuid.NewV4\<close>.
\<close>

definition generateTokenId :: "bytes \<Rightarrow> string" where
  "generateTokenId random = uuid_String (NewV4 random)"

text \<open>The claims set at lines 72-77. The addition is Go's on int64: it wraps.\<close>

definition issuedClaims :: "JWTAgent \<Rightarrow> 64 word \<Rightarrow> string \<Rightarrow> string \<Rightarrow> StandardClaims" where
  "issuedClaims j now jti devId =
     \<lparr>Audience = '''', ExpiresAt = now + expTimeout j, Id = jti, IssuedAt = 0,
      Issuer = issuer j, NotBefore = 0, Subject = devId\<rparr>"

definition GenerateTokenSignRS256 ::
  "jwt_lib \<Rightarrow> 64 word \<Rightarrow> bytes \<Rightarrow> JWTAgent \<Rightarrow> string \<Rightarrow> error + Token" where
  "GenerateTokenSignRS256 L now random j devId =
     (let jti = generateTokenId random;
          claims = issuedClaims j now jti devId;
          token = NewWithClaims SigningMethodRS256 (OfStandardClaims claims)
      in case SignedString L token (privKey j) of
           Inl err \<Rightarrow> Inl (Wrap err ErrMsgCreateTokenFailed)
         | Inr tokenString \<Rightarrow> Inr (NewToken jti devId tokenString))"

text \<open>The key function handed to \<^verbatim>\<open>jwt.Parse\<close> (lines 91-100).\<close>

definition keyFunc :: "JWTAgent \<Rightarrow> jwt_Token \<Rightarrow> error + PublicKey" where
  "keyFunc j token =
     (if \<not> isSigningMethodRSA (Method token)
      then Inl (New (''Unexpected signing method: '' @ Alg (Method token)))
      else Inr (PublicKey (privKey j)))"

text \<open>
  \<^verbatim>\<open>ValidateTokenSignRS256\<close>, for any \<^verbatim>\<open>jwt.Parse\<close>: the first argument is the library's
  parser. The result is the pair the Go function returns: the jti and the error (nil is
  \<open>None\<close>).
\<close>

definition ValidateTokenSignRS256 ::
  "(string \<Rightarrow> (jwt_Token \<Rightarrow> error + PublicKey) \<Rightarrow> error + jwt_Token) \<Rightarrow>
   JWTAgent \<Rightarrow> string \<Rightarrow> string \<times> error option" where
  "ValidateTokenSignRS256 jwt_Parse j tokenString =
     (case jwt_Parse tokenString (keyFunc j) of
        Inl err \<Rightarrow>
          (case err of
             ValidationError inner errs \<Rightarrow>
               if (errs AND ValidationErrorExpired) \<noteq> 0 then ('''', Some ErrTokenExpired)
               else ('''', Some (Wrap err ''token invalid''))
           | _ \<Rightarrow> ('''', Some (Wrap err ''token invalid'')))
      | Inr token \<Rightarrow>
          (case Claims token of
             MapClaims claims \<Rightarrow>
               if Valid token
               then (case claims jwtIdClaim of
                       Some (JString jtiStr) \<Rightarrow> (jtiStr, None)
                     | _ \<Rightarrow> ('''', Some (New ''Token invalid'')))
               else ('''', Some (New ''Token invalid''))
           | _ \<Rightarrow> ('''', Some (New ''Token invalid''))))"

text \<open>
  How a number of the issued claims comes back from the token: \<^verbatim>\<open>omitempty\<close> leaves a zero
  out, and any other value is read from its decimal digits as a float64.
\<close>

definition number_read_back :: "64 word \<Rightarrow> json option" where
  "number_read_back x = (if x = 0 then None else Some (JNumber (float64_of_int (sint x))))"

text \<open>
  What the library owes a token that the agent has issued with the claims \<open>c\<close> (whose id
  is the string of a UUID) and signed with \<open>key\<close>: \<open>ParseUnverified\<close> decodes the signed
  string \<open>s\<close> to the method RS256 and to claims that hold the id as \<^verbatim>\<open>jti\<close> and the three
  times as they are read back, and the signature segment verifies under the public half of
  the key. Nothing is asked of the other claims.
\<close>

definition reads_back :: "jwt_lib \<Rightarrow> StandardClaims \<Rightarrow> PrivateKey \<Rightarrow> string \<Rightarrow> bool" where
  "reads_back L c key s =
     (case ParseUnverified L s of
        Inl err \<Rightarrow> False
      | Inr (t, p0, p1, p2) \<Rightarrow>
          Method t = SigningMethodRS256 \<and>
          (case Claims t of
             MapClaims m \<Rightarrow>
               m ''exp'' = number_read_back (ExpiresAt c) \<and>
               m ''iat'' = number_read_back (IssuedAt c) \<and>
               m ''nbf'' = number_read_back (NotBefore c) \<and>
               m ''jti'' = Some (JString (StandardClaims.Id c))
           | OfStandardClaims x \<Rightarrow> False) \<and>
          Verify L SigningMethodRS256 (p0 @ ''.'' @ p1) p2 (PublicKey key) = None)"

section \<open>Devices, authentication sets and the 1.5.0 migration\<close>

text \<open>
  Modelled from the spec: the status of a device or of an authentication set, one of
  pending, accepted, rejected. The package \<^verbatim>\<open>model\<close> that declares it is not among the
  sources; the test writes the three values as strings.
\<close>

datatype Status = Pending | Accepted | Rejected

text \<open>
  Modelled from the spec: the failures of the identity canonicalizer and of the state
  engine, as the spec's error taxonomy names them. The code that raises them is not among
  the sources.
\<close>

datatype engine_error =
    MalformedIdentity
  | DeviceNotFound
  | AuthSetNotFound
  | MultipleAcceptedAuthSets

text \<open>
  Modelled from the spec: \<^verbatim>\<open>model.Device\<close>, declared outside the sources. The fields are
  those of the spec's data model under the names the test gives them; the decoded identity
  is a list of attribute and value in key order, times are seconds.
\<close>

record Device =
  Id :: string
  IdData :: string
  IdDataStruct :: "(string \<times> string) list"
  IdDataSha256 :: bytes
  PubKey :: string
  Status :: Status
  Decommissioning :: bool
  CreatedTs :: int
  UpdatedTs :: int

text \<open>
  Modelled from the spec: \<^verbatim>\<open>model.AuthSet\<close>, declared outside the sources, with the spec's
  fields under the test's names.
\<close>

record AuthSet =
  Id :: string
  DeviceId :: string
  IdData :: string
  IdDataStruct :: "(string \<times> string) list"
  IdDataSha256 :: bytes
  PubKey :: string
  Status :: Status
  Timestamp :: int

text \<open>
  Modelled from the spec: the persisted rows, which the data store (not among the sources)
  keeps in two collections.
\<close>

record store =
  devices :: "Device list"
  authSets :: "AuthSet list"

text \<open>
  What the canonicalizer calls in the standard library, taken as parameters:
  \<^verbatim>\<open>crypto/sha256\<close> on the raw bytes, and \<^verbatim>\<open>encoding/json\<close> on an object (its members in the
  order of the text, or nothing when the text is not a JSON object).
\<close>

record ident_env =
  sha256_Sum :: "string \<Rightarrow> bytes"
  json_Unmarshal :: "string \<Rightarrow> (string \<times> json) list option"

text \<open>
  Modelled from the spec: the canonicalizer accepts a flat mapping from keys to strings
  only; its code is not among the sources. \<open>flat_strings\<close> is that check.
\<close>

fun flat_strings :: "(string \<times> json) list \<Rightarrow> (string \<times> string) list option" where
  "flat_strings [] = Some []"
| "flat_strings ((k, JString v) # kvs) = map_option ((#) (k, v)) (flat_strings kvs)"
| "flat_strings ((k, other) # kvs) = None"

text \<open>
  Modelled from the spec: the canonical form has a deterministic key order; the code that
  builds it is not among the sources. \<open>canon_insert\<close> puts an attribute into a list kept in
  key order, over an earlier value of the same key.
\<close>

fun canon_insert ::
  "string \<Rightarrow> string \<Rightarrow> (string \<times> string) list \<Rightarrow> (string \<times> string) list" where
  "canon_insert k v [] = [(k, v)]"
| "canon_insert k v ((k', v') # kvs) =
     (if k = k' then (k, v) # kvs
      else if k < k' then (k, v) # (k', v') # kvs
      else (k', v') # canon_insert k v kvs)"

text \<open>
  Modelled from the spec: the identity canonicalizer, which the test calls \<^verbatim>\<open>decode\<close> and
  whose code is not among the sources. It decodes the raw identity data to its canonical
  structure and fails with \<open>MalformedIdentity\<close> when the data is not a flat mapping from
  keys to strings. The identity hash is \<open>sha256_Sum\<close> of the raw data.
\<close>

definition decode :: "ident_env \<Rightarrow> string \<Rightarrow> engine_error + (string \<times> string) list" where
  "decode E raw =
     (case json_Unmarshal E raw of
        None \<Rightarrow> Inl MalformedIdentity
      | Some members \<Rightarrow>
          (case flat_strings members of
             None \<Rightarrow> Inl MalformedIdentity
           | Some kvs \<Rightarrow> Inr (foldl (\<lambda>acc (k, v). canon_insert k v acc) [] kvs)))"

text \<open>
  Modelled from the spec: the derivation rule of the state engine, whose code
  (\<^verbatim>\<open>GetDeviceStatus\<close> and what it calls) is not among the sources. From the authentication
  sets of one device: accepted, with the public key of the accepted set, if one set is
  accepted; the failure \<open>MultipleAcceptedAuthSets\<close> if more than one is; else pending if
  a set is pending; else rejected, also when there is no set at all.
\<close>

definition deriveStatus :: "AuthSet list \<Rightarrow> engine_error + Status \<times> string option" where
  "deriveStatus asets =
     (case filter (\<lambda>a. AuthSet.Status a = Accepted) asets of
        [] \<Rightarrow> if Pending \<in> set (map AuthSet.Status asets) then Inr (Pending, None)
              else Inr (Rejected, None)
      | [a] \<Rightarrow> Inr (Accepted, Some (AuthSet.PubKey a))
      | a # b # rest \<Rightarrow> Inl MultipleAcceptedAuthSets)"

text \<open>
  Modelled from the spec: the migration's step on one authentication set; the migration's
  code is not among the sources. It recomputes the decoded identity and the hash from the
  raw identity data.
\<close>

definition backfillAuthSet :: "ident_env \<Rightarrow> AuthSet \<Rightarrow> engine_error + AuthSet" where
  "backfillAuthSet E a =
     (case decode E (AuthSet.IdData a) of
        Inl err \<Rightarrow> Inl err
      | Inr st \<Rightarrow>
          Inr (a\<lparr>AuthSet.IdDataStruct := st,
                 AuthSet.IdDataSha256 := sha256_Sum E (AuthSet.IdData a)\<rparr>))"

text \<open>
  Modelled from the spec: the migration's step on one device; the migration's code is not
  among the sources. It recomputes the decoded identity and the hash from the raw identity
  data and the status from the device's authentication sets; a row whose derived values
  already match is left as it is, a row that changes gets the current time as
  \<open>UpdatedTs\<close>.
\<close>

definition backfillDevice ::
  "ident_env \<Rightarrow> int \<Rightarrow> AuthSet list \<Rightarrow> Device \<Rightarrow> engine_error + Device" where
  "backfillDevice E now asets d =
     (case decode E (Device.IdData d) of
        Inl err \<Rightarrow> Inl err
      | Inr st \<Rightarrow>
          (case deriveStatus (filter (\<lambda>a. DeviceId a = Device.Id d) asets) of
             Inl err \<Rightarrow> Inl err
           | Inr (status, key) \<Rightarrow>
               (let d' = d\<lparr>Device.IdDataStruct := st,
                            Device.IdDataSha256 := sha256_Sum E (Device.IdData d),
                            Device.Status := status\<rparr>
                in Inr (if d' = d then d else d'\<lparr>UpdatedTs := now\<rparr>))))"

text \<open>
  Modelled from the spec: a migration step fails as a whole; its code is not among the
  sources. \<open>forEach\<close> runs a step over the rows in order and stops at the first failure.
\<close>

fun forEach :: "('a \<Rightarrow> 'e + 'b) \<Rightarrow> 'a list \<Rightarrow> 'e + 'b list" where
  "forEach f [] = Inr []"
| "forEach f (x # xs) =
     (case f x of
        Inl err \<Rightarrow> Inl err
      | Inr y \<Rightarrow> (case forEach f xs of Inl err \<Rightarrow> Inl err | Inr ys \<Rightarrow> Inr (y # ys)))"

text \<open>
  Modelled from the spec: \<^verbatim>\<open>migration_1_5_0.Up\<close>, which the test runs and whose code is not
  among the sources: the backfill over every authentication set and every device, at the
  time \<open>now\<close>. The result is the new store, or the failure that aborted the step.
\<close>

definition migration_1_5_0_Up :: "ident_env \<Rightarrow> int \<Rightarrow> store \<Rightarrow> engine_error + store" where
  "migration_1_5_0_Up E now S =
     (case forEach (backfillAuthSet E) (authSets S) of
        Inl err \<Rightarrow> Inl err
      | Inr asets \<Rightarrow>
          (case forEach (backfillDevice E now asets) (devices S) of
             Inl err \<Rightarrow> Inl err
           | Inr devs \<Rightarrow> Inr \<lparr>devices = devs, authSets = asets\<rparr>))"

section \<open>Example inputs\<close>

text \<open>
  Concrete inputs on which the definitions above are run: a small key, an agent, sixteen random bytes,
  and a stand-in for the library's primitives that knows one token string, \<open>h.c.s\<close>, and
  decodes it to a given method and claims.
\<close>

definition ex_key :: PrivateKey where
  "ex_key = \<lparr>PublicKey = \<lparr>rsa_N = 3233, rsa_E = 17\<rparr>, rsa_D = 2753, rsa_Primes = [61, 53]\<rparr>"

definition ex_agent :: "64 word \<Rightarrow> JWTAgent" where
  "ex_agent timeout = \<lparr>privKey = ex_key, issuer = ''mender'', expTimeout = timeout\<rparr>"

definition ex_random :: bytes where
  "ex_random = [0x6b, 0xa7, 0xb8, 0x10, 0x9d, 0xad, 0xf1, 0xd1,
                0xc0, 0xb4, 0x00, 0xc0, 0x4f, 0xd4, 0x30, 0xc8]"

definition ex_decoded :: "SigningMethod \<Rightarrow> (string \<rightharpoonup> json) \<Rightarrow> jwt_Token" where
  "ex_decoded method m =
     \<lparr>Raw = ''h.c.s'', Method = method,
      Header = [''typ'' \<mapsto> JString ''JWT'', ''alg'' \<mapsto> JString (Alg method)],
      Claims = MapClaims m, Signature = '''', Valid = False\<rparr>"

definition ex_lib :: "SigningMethod \<Rightarrow> (string \<rightharpoonup> json) \<Rightarrow> jwt_lib" where
  "ex_lib method m =
     \<lparr>ParseUnverified = (\<lambda>s. if s = ''h.c.s'' then Inr (ex_decoded method m, ''h'', ''c'', ''s'')
                             else Inl (ValidationError None ValidationErrorMalformed)),
      SigningString = (\<lambda>t. Inr ''h.c''),
      Sign = (\<lambda>method sstr key. Inr ''s''),
      Verify = (\<lambda>method sstr sig key.
                  if sstr = ''h.c'' \<and> sig = ''s'' then None
                  else Some ''crypto/rsa: verification error''),
      int64_out_of_range = (\<lambda>f. 0x8000000000000000)\<rparr>"

definition ex_HS256 :: SigningMethod where
  "ex_HS256 = SigningMethodHMAC ''HS256''"

definition ex_issued :: "64 word \<Rightarrow> 64 word \<Rightarrow> (string \<rightharpoonup> json)" where
  "ex_issued now timeout =
     (\<lambda>k. if k = ''exp'' then number_read_back (now + timeout)
          else if k = ''jti'' then Some (JString (generateTokenId ex_random))
          else if k = ''iss'' then Some (JString ''mender'')
          else if k = ''sub'' then Some (JString ''dev1'')
          else None)"

definition ex_expired :: "string \<rightharpoonup> json" where
  "ex_expired = [''exp'' \<mapsto> JNumber 999,
                 ''jti'' \<mapsto> JString ''6ba7b810-9dad-41d1-80b4-00c04fd430c8'']"



text \<open>A file system with a private key file, a public key file, a file that is not PEM, and
  nothing else.\<close>

definition ex_stdlib :: stdlib where
  "ex_stdlib =
     \<lparr>ReadFile = (\<lambda>path. if path = ''/etc/deviceauth/rsa/private.pem'' then Inr [1, 2, 3]
                          else if path = ''/etc/deviceauth/rsa/public.pem'' then Inr [4, 5]
                          else if path = ''/etc/hostname'' then Inr [6]
                          else Inl ''open: no such file or directory''),
      pem_Decode = (\<lambda>data. if data = [1, 2, 3]
                            then (Some \<lparr>Type = ''RSA PRIVATE KEY'', Headers = [], Bytes = [7, 8]\<rparr>, [])
                            else if data = [4, 5]
                            then (Some \<lparr>Type = ''PUBLIC KEY'', Headers = [], Bytes = [9]\<rparr>, [])
                            else (None, data)),
      ParsePKCS1PrivateKey = (\<lambda>der. if der = [7, 8] then Inr ex_key
                                      else Inl ''asn1: syntax error: truncated tag or length'')\<rparr>"

text \<open>
  The rows of \<^verbatim>\<open>TestMigration_1_5_0\<close>: three devices and four authentication sets, before
  the migration (no decoded identity, no hash) and after. The decoder knows the four
  identity payloads of the test; the digest is a stand-in.
\<close>

definition quoted :: "string \<Rightarrow> string" where
  "quoted s = CHR 0x22 # s @ [CHR 0x22]"

fun render_members :: "(string \<times> string) list \<Rightarrow> string" where
  "render_members [] = ''''"
| "render_members [(k, v)] = quoted k @ '':'' @ quoted v"
| "render_members ((k, v) # kvs) = quoted k @ '':'' @ quoted v @ '','' @ render_members kvs"

definition ex_payload :: "(string \<times> string) list \<Rightarrow> string" where
  "ex_payload kvs = ''{'' @ render_members kvs @ ''}''"

definition ex_ident1 :: "(string \<times> string) list" where
  "ex_ident1 = [(''sn'', ''0001''), (''mac'', ''00:00:00:01'')]"

definition ex_ident2 :: "(string \<times> string) list" where
  "ex_ident2 = [(''sn'', ''0002''), (''attr'', ''foo1''), (''mac'', ''00:00:00:02'')]"

definition ex_ident2' :: "(string \<times> string) list" where
  "ex_ident2' = [(''sn'', ''0002''), (''attr'', ''foo''), (''mac'', ''00:00:00:02'')]"

definition ex_ident3 :: "(string \<times> string) list" where
  "ex_ident3 = [(''sn'', ''0003''), (''attr'', ''foo3''), (''mac'', ''00:00:00:03'')]"

definition ex_ident_env :: ident_env where
  "ex_ident_env =
     \<lparr>sha256_Sum = (\<lambda>s. [of_nat (length s)]),
      json_Unmarshal =
        map_of (map (\<lambda>kvs. (ex_payload kvs, map (\<lambda>(k, v). (k, JString v)) kvs))
                  [ex_ident1, ex_ident2, ex_ident2', ex_ident3])\<rparr>"

definition ex_pubKey :: string where
  "ex_pubKey = ''-----BEGIN PUBLIC KEY-----''"

definition ex_device :: "string \<Rightarrow> (string \<times> string) list \<Rightarrow> Status \<Rightarrow> Device" where
  "ex_device i ident st =
     \<lparr>Device.Id = i, IdData = ex_payload ident, IdDataStruct = [], IdDataSha256 = [],
      PubKey = ex_pubKey, Status = st, Decommissioning = False,
      CreatedTs = 1500000000, UpdatedTs = 1500000000\<rparr>"

definition ex_authSet :: "string \<Rightarrow> string \<Rightarrow> (string \<times> string) list \<Rightarrow> Status \<Rightarrow> AuthSet" where
  "ex_authSet i dev ident st =
     \<lparr>AuthSet.Id = i, DeviceId = dev, IdData = ex_payload ident, IdDataStruct = [],
      IdDataSha256 = [], PubKey = ex_pubKey, Status = st, Timestamp = 1500000000\<rparr>"

definition ex_store :: store where
  "ex_store =
     \<lparr>devices = [ex_device ''1'' ex_ident1 Accepted, ex_device ''2'' ex_ident2 Pending,
                 ex_device ''3'' ex_ident3 Rejected],
      authSets = [ex_authSet ''1'' ''1'' ex_ident1 Accepted,
                  ex_authSet ''2'' ''2'' ex_ident2' Rejected,
                  ex_authSet ''3'' ''2'' ex_ident2 Pending,
                  ex_authSet ''4'' ''3'' ex_ident3 Rejected]\<rparr>"

definition ex_migrated_device ::
  "string \<Rightarrow> (string \<times> string) list \<Rightarrow> Status \<Rightarrow> (string \<times> string) list \<Rightarrow> Device" where
  "ex_migrated_device i ident st struct =
     \<lparr>Device.Id = i, IdData = ex_payload ident, IdDataStruct = struct,
      IdDataSha256 = sha256_Sum ex_ident_env (ex_payload ident),
      PubKey = ex_pubKey, Status = st, Decommissioning = False,
      CreatedTs = 1500000000, UpdatedTs = 1600000000\<rparr>"

definition ex_migrated_authSet ::
  "string \<Rightarrow> string \<Rightarrow> (string \<times> string) list \<Rightarrow> Status \<Rightarrow> (string \<times> string) list \<Rightarrow> AuthSet" where
  "ex_migrated_authSet i dev ident st struct =
     \<lparr>AuthSet.Id = i, DeviceId = dev, IdData = ex_payload ident, IdDataStruct = struct,
      IdDataSha256 = sha256_Sum ex_ident_env (ex_payload ident),
      PubKey = ex_pubKey, Status = st, Timestamp = 1500000000\<rparr>"

definition ex_migrated :: store where
  "ex_migrated =
     \<lparr>devices =
        [ex_migrated_device ''1'' ex_ident1 Accepted
           [(''mac'', ''00:00:00:01''), (''sn'', ''0001'')],
         ex_migrated_device ''2'' ex_ident2 Pending
           [(''attr'', ''foo1''), (''mac'', ''00:00:00:02''), (''sn'', ''0002'')],
         ex_migrated_device ''3'' ex_ident3 Rejected
           [(''attr'', ''foo3''), (''mac'', ''00:00:00:03''), (''sn'', ''0003'')]],
      authSets =
        [ex_migrated_authSet ''1'' ''1'' ex_ident1 Accepted
           [(''mac'', ''00:00:00:01''), (''sn'', ''0001'')],
         ex_migrated_authSet ''2'' ''2'' ex_ident2' Rejected
           [(''attr'', ''foo''), (''mac'', ''00:00:00:02''), (''sn'', ''0002'')],
         ex_migrated_authSet ''3'' ''2'' ex_ident2 Pending
           [(''attr'', ''foo1''), (''mac'', ''00:00:00:02''), (''sn'', ''0002'')],
         ex_migrated_authSet ''4'' ''3'' ex_ident3 Rejected
           [(''attr'', ''foo3''), (''mac'', ''00:00:00:03''), (''sn'', ''0003'')]]\<rparr>"

section \<open>Key loading: the failures\<close>

lemma unknownKeyTypeMsg_not_PEM:
  "unknownKeyTypeMsg got want \<noteq> ErrMsgPrivKeyNotPEMEncoded"
  by (simp add: unknownKeyTypeMsg_def ErrMsgPrivKeyNotPEMEncoded_def)

text \<open>
  Claim C7. \<^verbatim>\<open>getRSAPrivKey\<close> fails with the wrapped message "failed to read server private
  key file" exactly when reading the file fails; with "server private key not PEM-encoded"
  exactly when the file is read and \<^verbatim>\<open>pem.Decode\<close> finds no block; with the
  "unknown server private key type" error exactly when the block found has a type other
  than \<^verbatim>\<open>RSA PRIVATE KEY\<close>; and in the remaining case its result is that of
  \<^verbatim>\<open>x509.ParsePKCS1PrivateKey\<close> on the bytes of the block.
\<close>
theorem getRSAPrivKey_failures:
  "((\<exists>e. getRSAPrivKey S p = Inl (Wrap e ErrMsgPrivKeyReadFailed))
      \<longleftrightarrow> (\<exists>m. ReadFile S p = Inl m))
   \<and> (getRSAPrivKey S p = Inl (New ErrMsgPrivKeyNotPEMEncoded)
      \<longleftrightarrow> (\<exists>d. ReadFile S p = Inr d \<and> fst (pem_Decode S d) = None))
   \<and> ((\<exists>got. getRSAPrivKey S p = Inl (New (unknownKeyTypeMsg got ''RSA PRIVATE KEY'')))
      \<longleftrightarrow> (\<exists>d b. ReadFile S p = Inr d \<and> fst (pem_Decode S d) = Some b
                 \<and> Type b \<noteq> ''RSA PRIVATE KEY''))
   \<and> (\<forall>d b. ReadFile S p = Inr d \<and> fst (pem_Decode S d) = Some b
                 \<and> Type b = ''RSA PRIVATE KEY''
        \<longrightarrow> getRSAPrivKey S p =
              (case ParsePKCS1PrivateKey S (Bytes b) of
                 Inl m \<Rightarrow> Inl (Foreign m) | Inr key \<Rightarrow> Inr key))"
  by (auto simp: getRSAPrivKey_def Let_def unknownKeyTypeMsg_not_PEM
                 unknownKeyTypeMsg_not_PEM [symmetric]
           split: sum.splits option.splits)

text \<open>The four outcomes on the example file system.\<close>
theorem getRSAPrivKey_failures_witness:
  "(\<exists>e. getRSAPrivKey ex_stdlib ''/nowhere'' = Inl (Wrap e ErrMsgPrivKeyReadFailed))
   \<and> getRSAPrivKey ex_stdlib ''/etc/hostname'' = Inl (New ErrMsgPrivKeyNotPEMEncoded)
   \<and> (\<exists>got. getRSAPrivKey ex_stdlib ''/etc/deviceauth/rsa/public.pem''
              = Inl (New (unknownKeyTypeMsg got ''RSA PRIVATE KEY'')))
   \<and> getRSAPrivKey ex_stdlib ''/etc/deviceauth/rsa/private.pem'' = Inr ex_key"
proof -
  have 1: "\<exists>m. ReadFile ex_stdlib ''/nowhere'' = Inl m" by (simp add: ex_stdlib_def)
  have 2: "\<exists>d. ReadFile ex_stdlib ''/etc/hostname'' = Inr d \<and> fst (pem_Decode ex_stdlib d) = None"
    by (simp add: ex_stdlib_def)
  have 3: "\<exists>d b. ReadFile ex_stdlib ''/etc/deviceauth/rsa/public.pem'' = Inr d
            \<and> fst (pem_Decode ex_stdlib d) = Some b \<and> Type b \<noteq> ''RSA PRIVATE KEY''"
    by (simp add: ex_stdlib_def)
  have 4: "ReadFile ex_stdlib ''/etc/deviceauth/rsa/private.pem'' = Inr [1, 2, 3]
         \<and> fst (pem_Decode ex_stdlib [1, 2, 3])
             = Some \<lparr>Type = ''RSA PRIVATE KEY'', Headers = [], Bytes = [7, 8]\<rparr>
         \<and> Type \<lparr>Type = ''RSA PRIVATE KEY'', Headers = [], Bytes = [7, 8]\<rparr> = ''RSA PRIVATE KEY''"
    by (simp add: ex_stdlib_def)
  have 5: "ParsePKCS1PrivateKey ex_stdlib [7, 8] = Inr ex_key" by (simp add: ex_stdlib_def)
  from getRSAPrivKey_failures [of ex_stdlib "''/nowhere''"] 1
  have a: "\<exists>e. getRSAPrivKey ex_stdlib ''/nowhere'' = Inl (Wrap e ErrMsgPrivKeyReadFailed)"
    by blast
  from getRSAPrivKey_failures [of ex_stdlib "''/etc/hostname''"] 2
  have b: "getRSAPrivKey ex_stdlib ''/etc/hostname'' = Inl (New ErrMsgPrivKeyNotPEMEncoded)"
    by blast
  from getRSAPrivKey_failures [of ex_stdlib "''/etc/deviceauth/rsa/public.pem''"] 3
  have c: "\<exists>got. getRSAPrivKey ex_stdlib ''/etc/deviceauth/rsa/public.pem''
              = Inl (New (unknownKeyTypeMsg got ''RSA PRIVATE KEY''))"
    by blast
  from getRSAPrivKey_failures [of ex_stdlib "''/etc/deviceauth/rsa/private.pem''"] 4
  have "getRSAPrivKey ex_stdlib ''/etc/deviceauth/rsa/private.pem'' =
          (case ParsePKCS1PrivateKey ex_stdlib
                  (Bytes \<lparr>Type = ''RSA PRIVATE KEY'', Headers = [], Bytes = [7, 8]\<rparr>) of
             Inl m \<Rightarrow> Inl (Foreign m) | Inr key \<Rightarrow> Inr key)"
    by blast
  with 5 have d: "getRSAPrivKey ex_stdlib ''/etc/deviceauth/rsa/private.pem'' = Inr ex_key"
    by simp
  from a b c d show ?thesis by blast
qed

text \<open>\<^verbatim>\<open>NewJWTAgent\<close> hands the failure of the key loading on as it is.\<close>
lemma NewJWTAgent_error:
  "NewJWTAgent S c = Inl err \<longleftrightarrow> getRSAPrivKey S (ServerPrivKeyPath c) = Inl err"
  by (simp add: NewJWTAgent_def split: sum.splits)

section \<open>Issuing a token\<close>

lemma float64_of_int_small:
  assumes "\<bar>n\<bar> < 2 ^ 53"
  shows "float64_of_int n = of_int n"
proof -
  have "filter (\<lambda>i. (2::int) ^ (53 + i) \<le> \<bar>n\<bar>) [0..<11] = []"
  proof -
    have "\<not> (2::int) ^ (53 + i) \<le> \<bar>n\<bar>" for i :: nat
    proof -
      have "(2::int) ^ 53 \<le> 2 ^ (53 + i)" by (rule power_increasing) simp_all
      with assms show ?thesis by linarith
    qed
    then show ?thesis by simp
  qed
  then have "float64_of_int n = of_int (sgn n * \<bar>n\<bar>)"
    by (simp add: float64_of_int_def Let_def del: of_int_mult)
  also have "sgn n * \<bar>n\<bar> = n" by (simp add: mult_sgn_abs)
  finally show ?thesis .
qed

lemma float64_trunc_of_int: "float64_trunc (of_int n) = n"
  unfolding float64_trunc_def by (simp only: floor_of_int ceiling_of_int if_cancel)

lemma int64_read_back:
  assumes "\<bar>sint x\<bar> < 2 ^ 53"
  shows "int64_of_float64 ovf (float64_of_int (sint x)) = x"
proof -
  from assms have r: "- (2 ^ 63) \<le> sint x \<and> sint x < 2 ^ 63" by (simp add: abs_less_iff)
  have "int64_of_float64 ovf (of_int (sint x)) = word_of_int (sint x)"
    unfolding int64_of_float64_def float64_trunc_of_int Let_def
    using r by (simp only: simp_thms if_True)
  then show ?thesis
    by (simp add: float64_of_int_small [OF assms])
qed

lemma hexdigit_inj:
  assumes "m < 16" and "n < 16" and "hexdigit m = hexdigit n"
  shows "m = n"
proof -
  have d: "distinct ''0123456789abcdef''" by simp
  have l: "length ''0123456789abcdef'' = 16" by simp
  from assms have "''0123456789abcdef'' ! m = ''0123456789abcdef'' ! n"
    by (simp add: hexdigit_def)
  with nth_eq_iff_index_eq [OF d, of m n] assms(1,2) l show ?thesis by simp
qed

lemma hex_byte_inj:
  fixes a b :: "8 word"
  assumes "[hexdigit (unat a div 16), hexdigit (unat a mod 16)]
           = [hexdigit (unat b div 16), hexdigit (unat b mod 16)]"
  shows "a = b"
proof -
  have "unat a < 256" "unat b < 256" using unsigned_less [of a] unsigned_less [of b] by simp_all
  then have d: "unat a div 16 < 16" "unat b div 16 < 16" by simp_all
  have m: "unat a mod 16 < 16" "unat b mod 16 < 16" by simp_all
  from assms have "hexdigit (unat a div 16) = hexdigit (unat b div 16)"
    and "hexdigit (unat a mod 16) = hexdigit (unat b mod 16)" by simp_all
  with d m have "unat a div 16 = unat b div 16" and "unat a mod 16 = unat b mod 16"
    by (blast intro: hexdigit_inj)+
  then have "unat a = unat b" by (metis div_mult_mod_eq)
  then show ?thesis by (simp add: word_unat_eq_iff)
qed

lemma length_hex_Encode: "length (hex_Encode bs) = 2 * length bs"
  by (induction bs) (simp_all add: hex_Encode_def)

lemma hex_Encode_inj:
  assumes "length as = length bs" and "hex_Encode as = hex_Encode bs"
  shows "as = bs"
  using assms
proof (induction as bs rule: list_induct2)
  case Nil
  then show ?case by simp
next
  case (Cons a as b bs)
  from Cons.prems have "[hexdigit (unat a div 16), hexdigit (unat a mod 16)]
           = [hexdigit (unat b div 16), hexdigit (unat b mod 16)]"
    and "hex_Encode as = hex_Encode bs"
    by (simp_all add: hex_Encode_def)
  with Cons.IH hex_byte_inj show ?case by simp
qed

lemma length_uuid_String: "length u = 16 \<Longrightarrow> length (uuid_String u) = 36"
  by (simp add: uuid_String_def length_hex_Encode)

lemma uuid_parts:
  "u = take 4 u @ take 2 (drop 4 u) @ take 2 (drop 6 u) @ take 2 (drop 8 u) @ drop 10 u"
proof -
  have "take 2 (drop 8 u) @ drop 10 u = drop 8 u"
    using append_take_drop_id [of 2 "drop 8 u"] by simp
  moreover have "take 2 (drop 6 u) @ drop 8 u = drop 6 u"
    using append_take_drop_id [of 2 "drop 6 u"] by simp
  moreover have "take 2 (drop 4 u) @ drop 6 u = drop 4 u"
    using append_take_drop_id [of 2 "drop 4 u"] by simp
  ultimately show ?thesis by simp
qed

lemma uuid_String_inj:
  assumes "length u = 16" and "length v = 16" and "uuid_String u = uuid_String v"
  shows "u = v"
proof -
  from assms have "hex_Encode (take 4 u) = hex_Encode (take 4 v)"
    and "hex_Encode (take 2 (drop 4 u)) = hex_Encode (take 2 (drop 4 v))"
    and "hex_Encode (take 2 (drop 6 u)) = hex_Encode (take 2 (drop 6 v))"
    and "hex_Encode (take 2 (drop 8 u)) = hex_Encode (take 2 (drop 8 v))"
    and "hex_Encode (drop 10 u) = hex_Encode (drop 10 v)"
    by (simp_all add: uuid_String_def length_hex_Encode)
  with assms(1,2) have "take 4 u = take 4 v" and "take 2 (drop 4 u) = take 2 (drop 4 v)"
    and "take 2 (drop 6 u) = take 2 (drop 6 v)" and "take 2 (drop 8 u) = take 2 (drop 8 v)"
    and "drop 10 u = drop 10 v"
    by (simp_all add: hex_Encode_inj)
  with uuid_parts [of u] uuid_parts [of v] show ?thesis by simp
qed

lemma length_NewV4: "length (NewV4 random) = length random"
  by (simp add: NewV4_def SetVariant_def SetVersion_def)

lemma version_nibble:
  fixes x :: "8 word"
  shows "unat ((x AND 0x0f) OR push_bit 4 4) div 16 = 4"
proof -
  have "drop_bit 4 ((x AND 0x0f) OR push_bit 4 4) = (4 :: 8 word)"
    by (rule bit_word_eqI) (auto simp: bit_simps)
  then have "unat (drop_bit 4 ((x AND 0x0f) OR push_bit 4 4)) = 4" by simp
  then show ?thesis by (simp add: drop_bit_eq_div unat_div)
qed

lemma hex_Encode_Cons:
  "hex_Encode (b # bs) = hexdigit (unat b div 16) # hexdigit (unat b mod 16) # hex_Encode bs"
  by (simp add: hex_Encode_def)

lemma uuid_String_14:
  assumes "length u = 16"
  shows "uuid_String u ! 14 = hexdigit (unat (u ! 6) div 16)"
proof -
  from assms have "drop 6 u = u ! 6 # drop 7 u"
    using Cons_nth_drop_Suc [of 6 u] by simp
  then have "hex_Encode (take 2 (drop 6 u))
      = hexdigit (unat (u ! 6) div 16) # hexdigit (unat (u ! 6) mod 16)
          # hex_Encode (take 1 (drop 7 u))"
    by (simp add: hex_Encode_Cons)
  moreover have "uuid_String u ! 14
      = (hex_Encode (take 2 (drop 6 u)) @ ''-'' @ hex_Encode (take 2 (drop 8 u)) @ ''-'' @
          hex_Encode (drop 10 u)) ! 0"
    using assms by (simp add: uuid_String_def nth_append length_hex_Encode)
  ultimately show ?thesis by simp
qed

lemma uuid_String_19:
  assumes "length u = 16"
  shows "uuid_String u ! 19 = hexdigit (unat (u ! 8) div 16)"
proof -
  from assms have "drop 8 u = u ! 8 # drop 9 u"
    using Cons_nth_drop_Suc [of 8 u] by simp
  then have "hex_Encode (take 2 (drop 8 u))
      = hexdigit (unat (u ! 8) div 16) # hexdigit (unat (u ! 8) mod 16)
          # hex_Encode (take 1 (drop 9 u))"
    by (simp add: hex_Encode_Cons)
  moreover have "uuid_String u ! 19
      = (hex_Encode (take 2 (drop 8 u)) @ ''-'' @ hex_Encode (drop 10 u)) ! 0"
    using assms by (simp add: uuid_String_def nth_append length_hex_Encode)
  ultimately show ?thesis by simp
qed

lemma NewV4_6:
  assumes "length random = 16"
  shows "NewV4 random ! 6 = (random ! 6 AND 0x0f) OR push_bit 4 4"
  using assms by (simp add: NewV4_def SetVariant_def SetVersion_def)

lemma NewV4_8:
  assumes "length random = 16"
  shows "NewV4 random ! 8 = (random ! 8 AND 0x3f) OR 0x80"
  using assms by (simp add: NewV4_def SetVariant_def SetVersion_def)

lemma variant_nibble:
  fixes x :: "8 word"
  shows "unat ((x AND 0x3f) OR 0x80) div 16 \<in> {8, 9, 10, 11}"
proof -
  have "drop_bit 6 ((x AND 0x3f) OR 0x80) = (2 :: 8 word)"
    by (rule bit_word_eqI) (auto simp: bit_simps)
  then have "unat (drop_bit 6 ((x AND 0x3f) OR 0x80)) = 2" by simp
  then have "unat ((x AND 0x3f) OR 0x80) div 64 = 2" by (simp add: drop_bit_eq_div unat_div)
  then show ?thesis by auto
qed

lemma generateTokenId_format:
  assumes "length random = 16"
  shows "length (generateTokenId random) = 36"
    and "generateTokenId random ! 14 = CHR ''4''"
    and "generateTokenId random ! 19 \<in> set ''89ab''"
proof -
  have l: "length (NewV4 random) = 16" using assms by (simp add: length_NewV4)
  show "length (generateTokenId random) = 36"
    by (simp add: generateTokenId_def length_uuid_String l)
  show "generateTokenId random ! 14 = CHR ''4''"
    using version_nibble [of "random ! 6"]
    by (simp add: generateTokenId_def uuid_String_14 [OF l] NewV4_6 [OF assms] hexdigit_def)
  from variant_nibble [of "random ! 8"]
  show "generateTokenId random ! 19 \<in> set ''89ab''"
    by (auto simp: generateTokenId_def uuid_String_19 [OF l] NewV4_8 [OF assms] hexdigit_def)
qed

lemma generateTokenId_inj:
  assumes "length random = 16" and "length random' = 16"
    and "generateTokenId random' = generateTokenId random"
  shows "NewV4 random' = NewV4 random"
  using assms by (simp add: generateTokenId_def uuid_String_inj length_NewV4)

lemma ex_jti: "generateTokenId ex_random = ''6ba7b810-9dad-41d1-80b4-00c04fd430c8''"
  by (simp add: generateTokenId_def NewV4_def SetVariant_def SetVersion_def uuid_String_def
        hex_Encode_def hexdigit_def ex_random_def)

lemma ex_generate:
  "GenerateTokenSignRS256 (ex_lib SigningMethodRS256 (ex_issued now timeout)) now ex_random
     (ex_agent timeout) ''dev1''
   = Inr (NewToken ''6ba7b810-9dad-41d1-80b4-00c04fd430c8'' ''dev1'' ''h.c.s'')"
  by (simp add: GenerateTokenSignRS256_def SignedString_def ex_lib_def ex_jti)

lemma ex_reads_back:
  "reads_back (ex_lib SigningMethodRS256 (ex_issued now timeout))
     (issuedClaims (ex_agent timeout) now (generateTokenId ex_random) ''dev1'')
     (privKey (ex_agent timeout)) ''h.c.s''"
  by (simp add: reads_back_def ex_lib_def ex_decoded_def ex_issued_def issuedClaims_def
        ex_agent_def number_read_back_def)

text \<open>
  Claim C4. When \<^verbatim>\<open>GenerateTokenSignRS256\<close> succeeds for a device id, the token it signed
  has the claims issuer = the agent's issuer, subject = the device id, expiry = the current
  time plus the agent's timeout (Go's addition on int64) and id = the string of the UUID
  that \<^verbatim>\<open>uuid.NewV4\<close> made of the random bytes of this call, and no other claim; the token
  carries the method RS256 and is signed with the agent's private key; and the result
  holds the signed string (signing string, dot, signature) with that id and the device id.
  The id is a version 4 UUID in its 36 characters: the version digit is 4, the variant
  digit is 8, 9, a or b, and the id determines the UUID, so that two calls with different
  UUIDs give different ids.
\<close>

theorem GenerateTokenSignRS256_content:
  assumes "GenerateTokenSignRS256 L now random j devId = Inr tok"
  shows "(\<exists>claims sstr sig.
           StandardClaims.Issuer claims = issuer j
         \<and> Subject claims = devId
         \<and> ExpiresAt claims = now + expTimeout j
         \<and> StandardClaims.Id claims = uuid_String (NewV4 random)
         \<and> Audience claims = '''' \<and> IssuedAt claims = 0 \<and> NotBefore claims = 0
         \<and> SigningString L (NewWithClaims SigningMethodRS256 (OfStandardClaims claims)) = Inr sstr
         \<and> Sign L SigningMethodRS256 sstr (privKey j) = Inr sig
         \<and> tok = NewToken (uuid_String (NewV4 random)) devId (sstr @ ''.'' @ sig))
       \<and> (length random = 16 \<longrightarrow>
             length (tok_id tok) = 36 \<and> tok_id tok ! 14 = CHR ''4''
           \<and> tok_id tok ! 19 \<in> set ''89ab''
           \<and> (\<forall>other. length other = 16 \<and> uuid_String (NewV4 other) = tok_id tok
                  \<longrightarrow> NewV4 other = NewV4 random))"
proof -
  let ?jti = "uuid_String (NewV4 random)"
  let ?c = "issuedClaims j now ?jti devId"
  let ?t = "NewWithClaims SigningMethodRS256 (OfStandardClaims ?c)"
  from assms obtain s where s: "SignedString L ?t (privKey j) = Inr s"
    and tok: "tok = NewToken ?jti devId s"
    by (auto simp: GenerateTokenSignRS256_def generateTokenId_def Let_def split: sum.splits)
  from s obtain sstr sig where "SigningString L ?t = Inr sstr"
    and "Sign L SigningMethodRS256 sstr (privKey j) = Inr sig" and "s = sstr @ ''.'' @ sig"
    by (auto simp: SignedString_def NewWithClaims_def split: sum.splits)
  with tok have 1: "\<exists>claims sstr sig.
           StandardClaims.Issuer claims = issuer j
         \<and> Subject claims = devId
         \<and> ExpiresAt claims = now + expTimeout j
         \<and> StandardClaims.Id claims = uuid_String (NewV4 random)
         \<and> Audience claims = '''' \<and> IssuedAt claims = 0 \<and> NotBefore claims = 0
         \<and> SigningString L (NewWithClaims SigningMethodRS256 (OfStandardClaims claims)) = Inr sstr
         \<and> Sign L SigningMethodRS256 sstr (privKey j) = Inr sig
         \<and> tok = NewToken (uuid_String (NewV4 random)) devId (sstr @ ''.'' @ sig)"
    by (intro exI [of _ ?c] exI [of _ sstr] exI [of _ sig]) (simp add: issuedClaims_def)
  from tok have id: "tok_id tok = generateTokenId random"
    by (simp add: NewToken_def generateTokenId_def)
  have 2: "length (tok_id tok) = 36 \<and> tok_id tok ! 14 = CHR ''4''
           \<and> tok_id tok ! 19 \<in> set ''89ab''
           \<and> (\<forall>other. length other = 16 \<and> uuid_String (NewV4 other) = tok_id tok
                  \<longrightarrow> NewV4 other = NewV4 random)" if len: "length random = 16"
    using generateTokenId_format [OF len] generateTokenId_inj [OF len] id
    by (simp add: generateTokenId_def)
  from 1 2 show ?thesis by blast
qed

text \<open>An agent with a timeout of one hour issues a token at second 1000.\<close>

theorem GenerateTokenSignRS256_content_witness:
  "GenerateTokenSignRS256 (ex_lib SigningMethodRS256 (ex_issued 1000 3600)) 1000 ex_random
     (ex_agent 3600) ''dev1''
   = Inr (NewToken ''6ba7b810-9dad-41d1-80b4-00c04fd430c8'' ''dev1'' ''h.c.s'')
   \<and> length ex_random = 16
   \<and> uuid_String (NewV4 ex_random) = ''6ba7b810-9dad-41d1-80b4-00c04fd430c8''
   \<and> (\<exists>claims sstr sig.
           StandardClaims.Issuer claims = ''mender''
         \<and> Subject claims = ''dev1''
         \<and> ExpiresAt claims = 4600
         \<and> StandardClaims.Id claims = ''6ba7b810-9dad-41d1-80b4-00c04fd430c8''
         \<and> Audience claims = '''' \<and> IssuedAt claims = 0 \<and> NotBefore claims = 0
         \<and> SigningString (ex_lib SigningMethodRS256 (ex_issued 1000 3600))
              (NewWithClaims SigningMethodRS256 (OfStandardClaims claims)) = Inr sstr
         \<and> Sign (ex_lib SigningMethodRS256 (ex_issued 1000 3600)) SigningMethodRS256 sstr
              ex_key = Inr sig
         \<and> NewToken ''6ba7b810-9dad-41d1-80b4-00c04fd430c8'' ''dev1'' ''h.c.s''
             = NewToken ''6ba7b810-9dad-41d1-80b4-00c04fd430c8'' ''dev1'' (sstr @ ''.'' @ sig))
   \<and> length ''6ba7b810-9dad-41d1-80b4-00c04fd430c8'' = 36
   \<and> ''6ba7b810-9dad-41d1-80b4-00c04fd430c8'' ! 14 = CHR ''4''
   \<and> ''6ba7b810-9dad-41d1-80b4-00c04fd430c8'' ! 19 \<in> set ''89ab''"
proof -
  have len: "length ex_random = 16" by (simp add: ex_random_def)
  have jti: "uuid_String (NewV4 ex_random) = ''6ba7b810-9dad-41d1-80b4-00c04fd430c8''"
    using ex_jti by (simp add: generateTokenId_def)
  have id: "tok_id (NewToken ''6ba7b810-9dad-41d1-80b4-00c04fd430c8'' ''dev1'' ''h.c.s'')
              = ''6ba7b810-9dad-41d1-80b4-00c04fd430c8''"
    by (simp add: NewToken_def)
  from GenerateTokenSignRS256_content [OF ex_generate [of 1000 3600]] len
  show ?thesis
    unfolding jti id using ex_generate [of 1000 3600] len jti
    by (simp add: ex_agent_def)
qed

section \<open>Validating a token\<close>

lemmas ValidationError_bits =
  ValidationErrorExpired_def ValidationErrorIssuedAt_def ValidationErrorNotValidYet_def
  ValidationErrorSignatureInvalid_def ValidationErrorUnverifiable_def

lemma keyFunc_accepts:
  "isSigningMethodRSA (Method t) \<Longrightarrow> keyFunc j t = Inr (PublicKey (privKey j))"
  by (simp add: keyFunc_def)

lemma keyFunc_rejects:
  "\<not> isSigningMethodRSA (Method t) \<Longrightarrow>
   keyFunc j t = Inl (New (''Unexpected signing method: '' @ Alg (Method t)))"
  by (simp add: keyFunc_def)

lemma Unverifiable_not_Expired:
  "ValidationErrorUnverifiable AND ValidationErrorExpired = 0"
  by (simp add: ValidationErrorUnverifiable_def ValidationErrorExpired_def)

lemma MapClaims_Valid_expired:
  assumes "\<not> VerifyExpiresAt L m now False"
  shows "\<exists>i e. MapClaims_Valid L m now = Some (ValidationError i e)
            \<and> e AND ValidationErrorExpired \<noteq> 0
            \<and> (e OR ValidationErrorSignatureInvalid) AND ValidationErrorExpired \<noteq> 0"
  using assms by (simp add: MapClaims_Valid_def Let_def ValidationError_bits)

lemma MapClaims_Valid_live:
  assumes "VerifyExpiresAt L m now False" and "MapClaims_Valid L m now = Some v"
  shows "\<exists>i e. v = ValidationError i e \<and> e \<noteq> 0 \<and> e AND ValidationErrorExpired = 0"
  using assms
  by (auto simp: MapClaims_Valid_def Let_def ValidationError_bits split: if_splits)

lemma Parse_expired:
  assumes "ParseUnverified L s = Inr (t, p0, p1, p2)"
    and "kf t = Inr key"
    and "Claims t = MapClaims m"
    and "\<not> VerifyExpiresAt L m now False"
  shows "\<exists>i e. Parse L now s kf = Inl (ValidationError i e)
            \<and> e AND ValidationErrorExpired \<noteq> 0"
proof -
  from MapClaims_Valid_expired [OF assms(4)] obtain i e
    where v: "MapClaims_Valid L m now = Some (ValidationError i e)"
      and e1: "e AND ValidationErrorExpired \<noteq> 0"
      and e2: "(e OR ValidationErrorSignatureInvalid) AND ValidationErrorExpired \<noteq> 0"
    by blast
  from e1 have e0: "e \<noteq> 0" by auto
  from e2 have e3: "e OR ValidationErrorSignatureInvalid \<noteq> 0" by auto
  show ?thesis
    using assms(1-3) v e1 e2 e0 e3
    by (cases "Verify L (Method t) (p0 @ ''.'' @ p1) p2 key")
       (simp_all add: Parse_def Let_def)
qed

lemma Parse_verified:
  assumes "ParseUnverified L s = Inr (t, p0, p1, p2)"
    and "kf t = Inr key"
    and "Claims t = MapClaims m"
    and "Verify L (Method t) (p0 @ ''.'' @ p1) p2 key = None"
  shows "Parse L now s kf =
           (case MapClaims_Valid L m now of
              None \<Rightarrow> Inr (t\<lparr>Signature := p2, Valid := True\<rparr>)
            | Some vErr \<Rightarrow> Inl vErr)"
proof (cases "MapClaims_Valid L m now")
  case None
  with assms show ?thesis by (simp add: Parse_def Let_def)
next
  case (Some v)
  then obtain i e where "v = ValidationError i e" and "e \<noteq> 0"
    by (auto simp: MapClaims_Valid_def Let_def split: if_splits)
  with Some assms show ?thesis by (simp add: Parse_def Let_def)
qed

lemma reads_back_cases:
  assumes "reads_back L c key s"
  obtains t p0 p1 p2 m where "ParseUnverified L s = Inr (t, p0, p1, p2)"
    and "Method t = SigningMethodRS256" and "Claims t = MapClaims m"
    and "m ''exp'' = number_read_back (ExpiresAt c)"
    and "m ''iat'' = number_read_back (IssuedAt c)"
    and "m ''nbf'' = number_read_back (NotBefore c)"
    and "m ''jti'' = Some (JString (StandardClaims.Id c))"
    and "Verify L (Method t) (p0 @ ''.'' @ p1) p2 (PublicKey key) = None"
  using assms
  by (auto simp: reads_back_def split: sum.splits Claims.splits)


lemma ex_read_back_numbers:
  "number_read_back 4600 = Some (JNumber 4600)"
  "number_read_back 999 = Some (JNumber 999)"
  by (simp_all add: number_read_back_def float64_of_int_small)

lemma ex_int64:
  "int64_of_float64 ovf 4600 = 4600"
  "int64_of_float64 ovf 999 = 999"
  "int64_of_float64 ovf 5000 = 5000"
  "int64_of_float64 ovf 2000 = 2000"
  by (simp_all add: int64_of_float64_def float64_trunc_def)


lemmas ex_validate_defs =
  ValidateTokenSignRS256_def Parse_def ex_lib_def ex_decoded_def keyFunc_def
  SigningMethodRS256_def ex_HS256_def ex_issued_def ex_agent_def MapClaims_Valid_def
  VerifyExpiresAt_def VerifyIssuedAt_def VerifyNotBefore_def verifyExp_def verifyIat_def
  verifyNbf_def Let_def jwtIdClaim_def ex_jti ex_read_back_numbers ex_int64
  ValidationError_bits

text \<open>
  Claim C10. Whatever \<^verbatim>\<open>jwt.Parse\<close> does, when \<^verbatim>\<open>ValidateTokenSignRS256\<close> returns an error,
  the token identifier it returns is the empty string.
\<close>
theorem ValidateTokenSignRS256_error_empty_jti:
  "(snd (ValidateTokenSignRS256 jwt_Parse j tokenString) \<noteq> None
      \<longrightarrow> fst (ValidateTokenSignRS256 jwt_Parse j tokenString) = '''')
   \<and> (fst (ValidateTokenSignRS256 jwt_Parse j tokenString) \<noteq> ''''
      \<longrightarrow> snd (ValidateTokenSignRS256 jwt_Parse j tokenString) = None)"
  by (simp add: ValidateTokenSignRS256_def
           split: sum.split error.split Claims.split option.split json.split)

text \<open>A token with an HMAC header is refused, and the identifier returned is empty.\<close>
theorem ValidateTokenSignRS256_error_empty_jti_witness:
  "snd (ValidateTokenSignRS256 (Parse (ex_lib ex_HS256 Map.empty) 1000) (ex_agent 3600) ''h.c.s'')
     \<noteq> None
   \<and> fst (ValidateTokenSignRS256 (Parse (ex_lib ex_HS256 Map.empty) 1000) (ex_agent 3600) ''h.c.s'')
     = ''''
   \<and> fst (ValidateTokenSignRS256 (Parse (ex_lib SigningMethodRS256 (ex_issued 1000 3600)) 1000)
          (ex_agent 3600) ''h.c.s'') \<noteq> ''''
   \<and> snd (ValidateTokenSignRS256 (Parse (ex_lib SigningMethodRS256 (ex_issued 1000 3600)) 1000)
          (ex_agent 3600) ''h.c.s'') = None"
proof -
  have h: "snd (ValidateTokenSignRS256 (Parse (ex_lib ex_HS256 Map.empty) 1000) (ex_agent 3600)
             ''h.c.s'') \<noteq> None"
    by (simp add: ex_validate_defs)
  have g: "fst (ValidateTokenSignRS256 (Parse (ex_lib SigningMethodRS256 (ex_issued 1000 3600)) 1000)
             (ex_agent 3600) ''h.c.s'') \<noteq> ''''"
    by (simp add: ex_validate_defs)
  from ValidateTokenSignRS256_error_empty_jti [THEN conjunct1, THEN mp, OF h]
    ValidateTokenSignRS256_error_empty_jti [THEN conjunct2, THEN mp, OF g] h g
  show ?thesis by simp
qed

text \<open>
  Claim C2. A token string that the library decodes to a token whose \<^verbatim>\<open>alg\<close> header names
  a signing method outside \<^verbatim>\<open>SigningMethodRSA\<close> fails validation with the error
  "Unexpected signing method" of the key function, wrapped as unverifiable by the library
  and as "token invalid" by the agent. Neither the claims nor the signature are looked at:
  the statement holds for every \<open>Verify\<close>, so also for a signature that is correct under
  the other method.
\<close>
theorem non_RSA_method_rejected:
  assumes "ParseUnverified L tokenString = Inr (t, p0, p1, p2)"
    and "\<not> isSigningMethodRSA (Method t)"
  shows "ValidateTokenSignRS256 (Parse L now) j tokenString =
           ('''', Some (Wrap (ValidationError
                                (Some (New (''Unexpected signing method: '' @ Alg (Method t))))
                                ValidationErrorUnverifiable)
                             ''token invalid''))"
  using assms
  by (simp add: ValidateTokenSignRS256_def Parse_def keyFunc_rejects Unverifiable_not_Expired)

text \<open>The token of the example, with an HS256 header.\<close>
theorem non_RSA_method_rejected_witness:
  "ParseUnverified (ex_lib ex_HS256 (ex_issued 1000 3600)) ''h.c.s''
     = Inr (ex_decoded ex_HS256 (ex_issued 1000 3600), ''h'', ''c'', ''s'')
   \<and> \<not> isSigningMethodRSA (Method (ex_decoded ex_HS256 (ex_issued 1000 3600)))
   \<and> ValidateTokenSignRS256 (Parse (ex_lib ex_HS256 (ex_issued 1000 3600)) 1000) (ex_agent 3600) ''h.c.s''
     = ('''', Some (Wrap (ValidationError (Some (New ''Unexpected signing method: HS256''))
                            ValidationErrorUnverifiable) ''token invalid''))"
proof -
  have 1: "ParseUnverified (ex_lib ex_HS256 (ex_issued 1000 3600)) ''h.c.s''
     = Inr (ex_decoded ex_HS256 (ex_issued 1000 3600), ''h'', ''c'', ''s'')"
    by (simp add: ex_lib_def)
  have 2: "\<not> isSigningMethodRSA (Method (ex_decoded ex_HS256 (ex_issued 1000 3600)))"
    by (simp add: ex_decoded_def ex_HS256_def)
  have 3: "Alg (Method (ex_decoded ex_HS256 (ex_issued 1000 3600))) = ''HS256''"
    by (simp add: ex_decoded_def ex_HS256_def)
  from non_RSA_method_rejected [OF 1 2, of 1000 "ex_agent 3600"] 1 2 3 show ?thesis by simp
qed

text \<open>
  A token string that the library cannot decode, or whose \<^verbatim>\<open>alg\<close> header names no
  registered method, never reaches the key function: it is refused with the library's own
  error, wrapped as "token invalid", unless that error carries the expiry bit.
\<close>
lemma undecodable_rejected:
  assumes "ParseUnverified L tokenString = Inl err"
  shows "ValidateTokenSignRS256 (Parse L now) j tokenString = ('''', Some (Wrap err ''token invalid''))
         \<or> ValidateTokenSignRS256 (Parse L now) j tokenString = ('''', Some ErrTokenExpired)"
  using assms by (simp add: ValidateTokenSignRS256_def Parse_def split: error.split)

text \<open>
  Claim C3. Once the key function has accepted the token (its method is of type
  \<^verbatim>\<open>SigningMethodRSA\<close>), a token whose claims mark it expired at the time of validation,
  that is, whose \<^verbatim>\<open>exp\<close> claim is a number that the library's conversion to int64 makes
  neither 0 nor a time at or after the time of validation, fails with \<open>ErrTokenExpired\<close>,
  not with one of the invalid-token errors; this holds whether or not the signature
  verifies. In particular a token that the agent issued with a timeout of -1, at a clock
  reading from second 2 to second \<open>2 ^ 53\<close>, and that the library reads back, fails with
  \<open>ErrTokenExpired\<close> when it is validated at the same second or later.
\<close>

theorem expired_is_ErrTokenExpired:
  "(ParseUnverified L s = Inr (t, p0, p1, p2) \<and> isSigningMethodRSA (Method t)
      \<and> Claims t = MapClaims m \<and> m ''exp'' = Some (JNumber f)
      \<and> int64_of_float64 (int64_out_of_range L) f \<noteq> 0
      \<and> sint (int64_of_float64 (int64_out_of_range L) f) < sint now'
    \<longrightarrow> ValidateTokenSignRS256 (Parse L now') j s = ('''', Some ErrTokenExpired))
   \<and>
   (GenerateTokenSignRS256 L now random j devId = Inr tok \<and> expTimeout j = - 1
      \<and> reads_back L (issuedClaims j now (generateTokenId random) devId) (privKey j)
            (tok_issuedString tok)
      \<and> 1 < sint now \<and> sint now \<le> 2 ^ 53 \<and> sint now \<le> sint now'
    \<longrightarrow> ValidateTokenSignRS256 (Parse L now') j (tok_issuedString tok)
          = ('''', Some ErrTokenExpired))"
proof (intro conjI impI; elim conjE)
  assume pu: "ParseUnverified L s = Inr (t, p0, p1, p2)" and rsa: "isSigningMethodRSA (Method t)"
    and c: "Claims t = MapClaims m" and "m ''exp'' = Some (JNumber f)"
    "int64_of_float64 (int64_out_of_range L) f \<noteq> 0"
    "sint (int64_of_float64 (int64_out_of_range L) f) < sint now'"
  then have ex: "\<not> VerifyExpiresAt L m now' False"
    by (simp add: VerifyExpiresAt_def verifyExp_def)
  from Parse_expired [where kf = "keyFunc j", OF pu keyFunc_accepts [OF rsa] c ex]
  show "ValidateTokenSignRS256 (Parse L now') j s = ('''', Some ErrTokenExpired)"
    by (auto simp: ValidateTokenSignRS256_def)
next
  let ?c = "issuedClaims j now (generateTokenId random) devId"
  assume rb: "reads_back L ?c (privKey j) (tok_issuedString tok)"
    and t: "expTimeout j = - 1" and n: "1 < sint now" and b: "sint now \<le> 2 ^ 53"
    and n': "sint now \<le> sint now'"
  have "sint now < 2 ^ 63" using sint_lt [of now] by simp
  with n have s: "sint (now - 1) = sint now - 1"
    by (simp add: sint_word_diff signed_take_bit_int_eq_self)
  with n b have small: "\<bar>sint (now - 1)\<bar> < 2 ^ 53" by simp
  from s n have nz: "now - 1 \<noteq> 0" by auto
  from rb obtain t p0 p1 p2 m
    where pu: "ParseUnverified L (tok_issuedString tok) = Inr (t, p0, p1, p2)"
      and me: "Method t = SigningMethodRS256" and c: "Claims t = MapClaims m"
      and e: "m ''exp'' = number_read_back (ExpiresAt ?c)"
    by (rule reads_back_cases)
  from me have rsa: "isSigningMethodRSA (Method t)" by (simp add: SigningMethodRS256_def)
  from e t nz have "m ''exp'' = Some (JNumber (float64_of_int (sint (now - 1))))"
    by (simp add: issuedClaims_def number_read_back_def)
  with int64_read_back [OF small, of "int64_out_of_range L"] nz s n'
  have ex: "\<not> VerifyExpiresAt L m now' False"
    by (simp add: VerifyExpiresAt_def verifyExp_def)
  from Parse_expired [where kf = "keyFunc j", OF pu keyFunc_accepts [OF rsa] c ex]
  show "ValidateTokenSignRS256 (Parse L now') j (tok_issuedString tok) = ('''', Some ErrTokenExpired)"
    by (auto simp: ValidateTokenSignRS256_def)
qed

text \<open>Both parts on the example: an expired RS256 token, and a token issued with timeout -1.\<close>

theorem expired_is_ErrTokenExpired_witness:
  "ParseUnverified (ex_lib SigningMethodRS256 ex_expired) ''h.c.s''
     = Inr (ex_decoded SigningMethodRS256 ex_expired, ''h'', ''c'', ''s'')
   \<and> ValidateTokenSignRS256 (Parse (ex_lib SigningMethodRS256 ex_expired) 1000) (ex_agent 3600)
       ''h.c.s'' = ('''', Some ErrTokenExpired)
   \<and> GenerateTokenSignRS256 (ex_lib SigningMethodRS256 (ex_issued 1000 (- 1))) 1000 ex_random
       (ex_agent (- 1)) ''dev1''
     = Inr (NewToken ''6ba7b810-9dad-41d1-80b4-00c04fd430c8'' ''dev1'' ''h.c.s'')
   \<and> ValidateTokenSignRS256 (Parse (ex_lib SigningMethodRS256 (ex_issued 1000 (- 1))) 1001)
       (ex_agent (- 1)) ''h.c.s''
     = ('''', Some ErrTokenExpired)"
proof -
  have 1: "ParseUnverified (ex_lib SigningMethodRS256 ex_expired) ''h.c.s''
     = Inr (ex_decoded SigningMethodRS256 ex_expired, ''h'', ''c'', ''s'')
     \<and> isSigningMethodRSA (Method (ex_decoded SigningMethodRS256 ex_expired))
     \<and> Claims (ex_decoded SigningMethodRS256 ex_expired) = MapClaims ex_expired
     \<and> ex_expired ''exp'' = Some (JNumber 999)
     \<and> int64_of_float64 (int64_out_of_range (ex_lib SigningMethodRS256 ex_expired)) 999 \<noteq> 0
     \<and> sint (int64_of_float64 (int64_out_of_range (ex_lib SigningMethodRS256 ex_expired)) 999)
         < sint (1000 :: 64 word)"
    by (simp add: ex_lib_def ex_decoded_def SigningMethodRS256_def ex_expired_def ex_int64)
  have 2: "GenerateTokenSignRS256 (ex_lib SigningMethodRS256 (ex_issued 1000 (- 1))) 1000 ex_random
             (ex_agent (- 1)) ''dev1''
           = Inr (NewToken ''6ba7b810-9dad-41d1-80b4-00c04fd430c8'' ''dev1'' ''h.c.s'')
     \<and> expTimeout (ex_agent (- 1)) = - 1
     \<and> reads_back (ex_lib SigningMethodRS256 (ex_issued 1000 (- 1)))
         (issuedClaims (ex_agent (- 1)) 1000 (generateTokenId ex_random) ''dev1'')
         (privKey (ex_agent (- 1)))
         (tok_issuedString (NewToken ''6ba7b810-9dad-41d1-80b4-00c04fd430c8'' ''dev1'' ''h.c.s''))
     \<and> 1 < sint (1000 :: 64 word) \<and> sint (1000 :: 64 word) \<le> 2 ^ 53
     \<and> sint (1000 :: 64 word) \<le> sint (1001 :: 64 word)"
    using ex_generate [of 1000 "- 1"] ex_reads_back [of 1000 "- 1"]
    by (simp add: ex_agent_def NewToken_def)
  from expired_is_ErrTokenExpired
         [of "ex_lib SigningMethodRS256 ex_expired" "''h.c.s''"
             "ex_decoded SigningMethodRS256 ex_expired" "''h''" "''c''" "''s''" ex_expired
             "999" 1000 "ex_agent 3600", THEN conjunct1, THEN mp, OF 1]
  have a: "ValidateTokenSignRS256 (Parse (ex_lib SigningMethodRS256 ex_expired) 1000) (ex_agent 3600)
       ''h.c.s'' = ('''', Some ErrTokenExpired)" .
  from expired_is_ErrTokenExpired [THEN conjunct2, THEN mp, OF 2]
  have b: "ValidateTokenSignRS256 (Parse (ex_lib SigningMethodRS256 (ex_issued 1000 (- 1))) 1001)
       (ex_agent (- 1)) ''h.c.s'' = ('''', Some ErrTokenExpired)"
    by (simp add: NewToken_def)
  from 1 2 a b show ?thesis by simp
qed

text \<open>
  What the agent returns for a token that the library decodes, with a method of type
  \<^verbatim>\<open>SigningMethodRSA\<close>, a signature that verifies and claims that are not expired, when the
  \<^verbatim>\<open>jti\<close> claim is missing or no string, or the claims fail the library's validation
  otherwise: the empty identifier, and \<^verbatim>\<open>errors.New("Token invalid")\<close> when the claims are
  valid, the library's error wrapped as "token invalid" when they are not.
\<close>

lemma verified_but_invalid:
  assumes pu: "ParseUnverified L s = Inr (t, p0, p1, p2)"
    and rsa: "isSigningMethodRSA (Method t)"
    and c: "Claims t = MapClaims m"
    and sig: "Verify L (Method t) (p0 @ ''.'' @ p1) p2 (PublicKey (privKey j)) = None"
    and live: "VerifyExpiresAt L m now False"
    and bad: "(\<forall>str. m jwtIdClaim \<noteq> Some (JString str)) \<or> MapClaims_Valid L m now \<noteq> None"
  shows "ValidateTokenSignRS256 (Parse L now) j s =
           ('''', Some (case MapClaims_Valid L m now of
                          None \<Rightarrow> New ''Token invalid''
                        | Some vErr \<Rightarrow> Wrap vErr ''token invalid''))"
proof (cases "MapClaims_Valid L m now")
  case None
  with bad have nj: "\<forall>str. m jwtIdClaim \<noteq> Some (JString str)" by simp
  from Parse_verified [where kf = "keyFunc j" and now = now, OF pu keyFunc_accepts [OF rsa] c sig] None
  have "Parse L now s (keyFunc j) = Inr (t\<lparr>Signature := p2, Valid := True\<rparr>)" by simp
  with c nj None show ?thesis
    by (auto simp: ValidateTokenSignRS256_def split: option.splits json.splits)
next
  case (Some v)
  from MapClaims_Valid_live [OF live Some] obtain i e
    where v: "v = ValidationError i e" and "e AND ValidationErrorExpired = 0" by blast
  moreover from Parse_verified [where kf = "keyFunc j" and now = now, OF pu keyFunc_accepts [OF rsa] c sig] Some
  have "Parse L now s (keyFunc j) = Inl v" by simp
  ultimately show ?thesis using Some by (simp add: ValidateTokenSignRS256_def)
qed





section \<open>The derivation rule and the migration\<close>

lemma forEach_map:
  "(\<And>x. x \<in> set xs \<Longrightarrow> f x = Inr (g x)) \<Longrightarrow> forEach f xs = Inr (map g xs)"
  by (induction xs) simp_all

lemma forEach_Inr:
  "forEach f xs = Inr ys \<Longrightarrow> list_all2 (\<lambda>x y. f x = Inr y) xs ys"
  by (induction xs arbitrary: ys) (auto split: sum.splits)

lemma forEach_frame:
  assumes "forEach f xs = Inr ys" and "\<And>x y. f x = Inr y \<Longrightarrow> h y = h x"
  shows "map h ys = map h xs"
  using assms(1)
  by (induction xs arbitrary: ys) (auto split: sum.splits dest: assms(2))

lemma backfillDevice_cases:
  assumes "backfillDevice E now asets d = Inr d'"
  obtains st status key where "decode E (Device.IdData d) = Inr st"
    and "deriveStatus (filter (\<lambda>a. DeviceId a = Device.Id d) asets) = Inr (status, key)"
    and "d' = d\<lparr>Device.IdDataStruct := st,
                  Device.IdDataSha256 := sha256_Sum E (Device.IdData d),
                  Device.Status := status\<rparr>
         \<or> d' = d\<lparr>Device.IdDataStruct := st,
                  Device.IdDataSha256 := sha256_Sum E (Device.IdData d),
                  Device.Status := status, UpdatedTs := now\<rparr>"
proof -
  from assms obtain st status key where 1: "decode E (Device.IdData d) = Inr st"
    and 2: "deriveStatus (filter (\<lambda>a. DeviceId a = Device.Id d) asets) = Inr (status, key)"
    by (auto simp: backfillDevice_def split: sum.splits)
  let ?d = "d\<lparr>Device.IdDataStruct := st,
               Device.IdDataSha256 := sha256_Sum E (Device.IdData d),
               Device.Status := status\<rparr>"
  from assms 1 2 have "d' = (if ?d = d then d else ?d\<lparr>UpdatedTs := now\<rparr>)"
    by (simp add: backfillDevice_def Let_def)
  then have "d' = ?d \<or> d' = ?d\<lparr>UpdatedTs := now\<rparr>"
    by (cases "?d = d") simp_all
  with 1 2 that show thesis by blast
qed

lemma backfillDevice_result:
  assumes "backfillDevice E now asets d = Inr d'"
  shows "\<exists>key. deriveStatus (filter (\<lambda>a. DeviceId a = Device.Id d) asets)
                 = Inr (Device.Status d', key)"
    and "Device.IdDataSha256 d' = sha256_Sum E (Device.IdData d')"
    and "decode E (Device.IdData d') = Inr (Device.IdDataStruct d')"
    and "Device.Id d' = Device.Id d" and "Device.IdData d' = Device.IdData d"
    and "Device.PubKey d' = Device.PubKey d" and "Decommissioning d' = Decommissioning d"
    and "CreatedTs d' = CreatedTs d"
proof -
  from assms obtain st status key where 1: "decode E (Device.IdData d) = Inr st"
    and 2: "deriveStatus (filter (\<lambda>a. DeviceId a = Device.Id d) asets) = Inr (status, key)"
    and 3: "d' = d\<lparr>Device.IdDataStruct := st,
                  Device.IdDataSha256 := sha256_Sum E (Device.IdData d),
                  Device.Status := status\<rparr>
         \<or> d' = d\<lparr>Device.IdDataStruct := st,
                  Device.IdDataSha256 := sha256_Sum E (Device.IdData d),
                  Device.Status := status, UpdatedTs := now\<rparr>"
    by (rule backfillDevice_cases)
  from 3 have f: "Device.Status d' = status" "Device.IdDataStruct d' = st"
    "Device.IdDataSha256 d' = sha256_Sum E (Device.IdData d)"
    "Device.Id d' = Device.Id d" "Device.IdData d' = Device.IdData d"
    "Device.PubKey d' = Device.PubKey d" "Decommissioning d' = Decommissioning d"
    "CreatedTs d' = CreatedTs d"
    by auto
  from f 2 show "\<exists>key. deriveStatus (filter (\<lambda>a. DeviceId a = Device.Id d) asets)
                 = Inr (Device.Status d', key)" by simp
  from f 1 show "Device.IdDataSha256 d' = sha256_Sum E (Device.IdData d')"
    and "decode E (Device.IdData d') = Inr (Device.IdDataStruct d')" by simp_all
  from f show "Device.Id d' = Device.Id d" and "Device.IdData d' = Device.IdData d"
    and "Device.PubKey d' = Device.PubKey d" and "Decommissioning d' = Decommissioning d"
    and "CreatedTs d' = CreatedTs d" by simp_all
qed

lemma backfillDevice_total:
  assumes "decode E (Device.IdData d) = Inr st"
    and "deriveStatus (filter (\<lambda>a. DeviceId a = Device.Id d) asets) = Inr (status, key)"
  shows "\<exists>d'. backfillDevice E now asets d = Inr d' \<and> Device.Status d' = status"
proof -
  let ?d = "d\<lparr>Device.IdDataStruct := st,
               Device.IdDataSha256 := sha256_Sum E (Device.IdData d),
               Device.Status := status\<rparr>"
  have r: "backfillDevice E now asets d = Inr (if ?d = d then d else ?d\<lparr>UpdatedTs := now\<rparr>)"
    using assms by (simp add: backfillDevice_def Let_def)
  show ?thesis
  proof (cases "?d = d")
    case True
    from arg_cong [OF this, of Device.Status] have "Device.Status d = status" by simp
    with r True show ?thesis by simp
  next
    case False
    with r show ?thesis by simp
  qed
qed

lemma migration_devices:
  assumes "migration_1_5_0_Up E now S = Inr S'" and "d' \<in> set (devices S')"
  shows "Device.IdDataSha256 d' = sha256_Sum E (Device.IdData d')"
    and "decode E (Device.IdData d') = Inr (Device.IdDataStruct d')"
    and "\<exists>key. deriveStatus (filter (\<lambda>a. DeviceId a = Device.Id d') (authSets S'))
                 = Inr (Device.Status d', key)"
proof -
  from assms(1) obtain asets devs
    where d: "forEach (backfillDevice E now asets) (devices S) = Inr devs"
      and S': "S' = \<lparr>devices = devs, authSets = asets\<rparr>"
    by (auto simp: migration_1_5_0_Up_def split: sum.splits)
  from forEach_Inr [OF d] assms(2) S' obtain d0
    where b: "backfillDevice E now asets d0 = Inr d'"
    by (auto simp: in_set_conv_nth list_all2_conv_all_nth)
  from backfillDevice_result [OF b] S'
  show "Device.IdDataSha256 d' = sha256_Sum E (Device.IdData d')"
    and "decode E (Device.IdData d') = Inr (Device.IdDataStruct d')"
    and "\<exists>key. deriveStatus (filter (\<lambda>a. DeviceId a = Device.Id d') (authSets S'))
                 = Inr (Device.Status d', key)"
    by simp_all
qed

lemmas ex_ident_defs = ex_ident1_def ex_ident2_def ex_ident2'_def ex_ident3_def

lemma ex_decode:
  "decode ex_ident_env (ex_payload ex_ident1) = Inr [(''mac'', ''00:00:00:01''), (''sn'', ''0001'')]"
  "decode ex_ident_env (ex_payload ex_ident2) =
     Inr [(''attr'', ''foo1''), (''mac'', ''00:00:00:02''), (''sn'', ''0002'')]"
  "decode ex_ident_env (ex_payload ex_ident2') =
     Inr [(''attr'', ''foo''), (''mac'', ''00:00:00:02''), (''sn'', ''0002'')]"
  "decode ex_ident_env (ex_payload ex_ident3) =
     Inr [(''attr'', ''foo3''), (''mac'', ''00:00:00:03''), (''sn'', ''0003'')]"
  by (simp_all add: decode_def ex_ident_env_def ex_payload_def ex_ident_defs quoted_def)

lemma ex_migration:
  "migration_1_5_0_Up ex_ident_env 1600000000 ex_store = Inr ex_migrated"
  by (simp add: migration_1_5_0_Up_def ex_store_def ex_migrated_def backfillAuthSet_def
        backfillDevice_def deriveStatus_def ex_decode ex_device_def ex_authSet_def
        ex_migrated_device_def ex_migrated_authSet_def Let_def)

text \<open>
  Claim C6. With at most one accepted set among the authentication sets of a device, as
  the rule presupposes: the status derived is accepted, with the public key of the
  accepted set, if a set is accepted; otherwise it is pending if a set is pending, and
  rejected if none is, also for a device with no set at all. In particular one rejected
  and one pending set give pending.
\<close>

theorem deriveStatus_rule:
  "(a \<in> set asets \<and> AuthSet.Status a = Accepted
      \<and> length (filter (\<lambda>a. AuthSet.Status a = Accepted) asets) \<le> 1
      \<longrightarrow> deriveStatus asets = Inr (Accepted, Some (AuthSet.PubKey a)))
   \<and> (Accepted \<notin> set (map AuthSet.Status asets) \<and> Pending \<in> set (map AuthSet.Status asets)
      \<longrightarrow> deriveStatus asets = Inr (Pending, None))
   \<and> (Accepted \<notin> set (map AuthSet.Status asets) \<and> Pending \<notin> set (map AuthSet.Status asets)
      \<longrightarrow> deriveStatus asets = Inr (Rejected, None))
   \<and> (map AuthSet.Status asets = [Rejected, Pending]
      \<longrightarrow> deriveStatus asets = Inr (Pending, None))"
proof -
  have one: "deriveStatus asets = Inr (Accepted, Some (AuthSet.PubKey a))"
    if "a \<in> set asets" and "AuthSet.Status a = Accepted"
      and "length (filter (\<lambda>a. AuthSet.Status a = Accepted) asets) \<le> 1"
  proof -
    let ?f = "filter (\<lambda>a. AuthSet.Status a = Accepted) asets"
    from that(1,2) have "a \<in> set ?f" by simp
    with that(3) have "?f = [a]" by (cases ?f) auto
    then show ?thesis by (simp add: deriveStatus_def)
  qed
  have none: "filter (\<lambda>a. AuthSet.Status a = Accepted) asets = []"
    if "Accepted \<notin> set (map AuthSet.Status asets)"
    using that by (force simp: filter_empty_conv)
  have two: "deriveStatus asets = Inr (Pending, None)"
    if "map AuthSet.Status asets = [Rejected, Pending]"
  proof -
    from that have "Accepted \<notin> set (map AuthSet.Status asets)"
      and "Pending \<in> set (map AuthSet.Status asets)" by simp_all
    with none show ?thesis by (simp add: deriveStatus_def)
  qed
  show ?thesis
    using one none two by (auto simp: deriveStatus_def)
qed

text \<open>The rule on sets of the test, and on no set.\<close>

theorem deriveStatus_rule_witness:
  "deriveStatus [ex_authSet ''2'' ''2'' ex_ident2' Rejected, ex_authSet ''3'' ''2'' ex_ident2 Pending]
     = Inr (Pending, None)
   \<and> deriveStatus [ex_authSet ''1'' ''1'' ex_ident1 Accepted] = Inr (Accepted, Some ex_pubKey)
   \<and> deriveStatus [] = Inr (Rejected, None)"
proof -
  let ?r = "ex_authSet ''2'' ''2'' ex_ident2' Rejected"
  let ?p = "ex_authSet ''3'' ''2'' ex_ident2 Pending"
  let ?a = "ex_authSet ''1'' ''1'' ex_ident1 Accepted"
  have 1: "map AuthSet.Status [?r, ?p] = [Rejected, Pending]" by (simp add: ex_authSet_def)
  have 2: "?a \<in> set [?a] \<and> AuthSet.Status ?a = Accepted
           \<and> length (filter (\<lambda>a. AuthSet.Status a = Accepted) [?a]) \<le> 1"
    by (simp add: ex_authSet_def)
  have 3: "Accepted \<notin> set (map AuthSet.Status []) \<and> Pending \<notin> set (map AuthSet.Status [])"
    by simp
  have k: "AuthSet.PubKey ?a = ex_pubKey" by (simp add: ex_authSet_def)
  from deriveStatus_rule [of ?a "[?r, ?p]"] 1 deriveStatus_rule [of ?a "[?a]"] 2
    deriveStatus_rule [of ?a "[]"] 3 k
  show ?thesis by simp
qed

text \<open>
  Beyond the rule's presupposition, with more than one accepted set, the derivation
  modelled here fails with \<open>MultipleAcceptedAuthSets\<close>, as the spec asks.
\<close>

lemma deriveStatus_several_accepted:
  assumes "1 < length (filter (\<lambda>a. AuthSet.Status a = Accepted) asets)"
  shows "deriveStatus asets = Inl MultipleAcceptedAuthSets"
  using assms by (auto simp: deriveStatus_def split: list.splits)

text \<open>
  Claim C9. A run of the 1.5.0 migration that succeeds keeps every row and its place, and
  in every device the id, the raw identity data, the public key, the decommissioning flag
  and the creation time are what they were; in every authentication set the id, the device
  id, the raw identity data and the public key are what they were (and so are its status
  and its timestamp). Only the decoded identity, the hash, the status of a device and its
  update time can differ.
\<close>
theorem migration_frame:
  assumes "migration_1_5_0_Up E now S = Inr S'"
  shows "map (\<lambda>d. (Device.Id d, Device.IdData d, Device.PubKey d, Decommissioning d, CreatedTs d))
             (devices S')
         = map (\<lambda>d. (Device.Id d, Device.IdData d, Device.PubKey d, Decommissioning d, CreatedTs d))
             (devices S)
       \<and> map (\<lambda>a. (AuthSet.Id a, DeviceId a, AuthSet.IdData a, AuthSet.PubKey a,
                   AuthSet.Status a, Timestamp a)) (authSets S')
         = map (\<lambda>a. (AuthSet.Id a, DeviceId a, AuthSet.IdData a, AuthSet.PubKey a,
                   AuthSet.Status a, Timestamp a)) (authSets S)"
proof -
  from assms obtain asets devs
    where a: "forEach (backfillAuthSet E) (authSets S) = Inr asets"
      and d: "forEach (backfillDevice E now asets) (devices S) = Inr devs"
      and S': "S' = \<lparr>devices = devs, authSets = asets\<rparr>"
    by (auto simp: migration_1_5_0_Up_def split: sum.splits)
  have "map (\<lambda>d. (Device.Id d, Device.IdData d, Device.PubKey d, Decommissioning d, CreatedTs d)) devs
        = map (\<lambda>d. (Device.Id d, Device.IdData d, Device.PubKey d, Decommissioning d, CreatedTs d))
            (devices S)"
    by (rule forEach_frame [OF d]) (simp add: backfillDevice_result)
  moreover
  have "map (\<lambda>a. (AuthSet.Id a, DeviceId a, AuthSet.IdData a, AuthSet.PubKey a,
                   AuthSet.Status a, Timestamp a)) asets
        = map (\<lambda>a. (AuthSet.Id a, DeviceId a, AuthSet.IdData a, AuthSet.PubKey a,
                   AuthSet.Status a, Timestamp a)) (authSets S)"
    by (rule forEach_frame [OF a]) (auto simp: backfillAuthSet_def split: sum.splits)
  ultimately show ?thesis by (simp add: S')
qed

text \<open>The migration of the test's rows, run at second 1600000000.\<close>
theorem migration_frame_witness:
  "migration_1_5_0_Up ex_ident_env 1600000000 ex_store = Inr ex_migrated
   \<and> map (\<lambda>d. (Device.Id d, Device.IdData d, Device.PubKey d, Decommissioning d, CreatedTs d))
          (devices ex_migrated)
     = map (\<lambda>d. (Device.Id d, Device.IdData d, Device.PubKey d, Decommissioning d, CreatedTs d))
          (devices ex_store)
   \<and> map (\<lambda>a. (AuthSet.Id a, DeviceId a, AuthSet.IdData a, AuthSet.PubKey a,
               AuthSet.Status a, Timestamp a)) (authSets ex_migrated)
     = map (\<lambda>a. (AuthSet.Id a, DeviceId a, AuthSet.IdData a, AuthSet.PubKey a,
               AuthSet.Status a, Timestamp a)) (authSets ex_store)"
  using migration_frame [OF ex_migration] ex_migration by simp

text \<open>
  Claim C5. For three devices with different ids whose authentication sets are one
  accepted set for the first, a rejected and a pending set for the second, and one rejected
  set for the third, all with identity data the canonicalizer decodes: the 1.5.0 migration
  succeeds, the statuses of the persisted devices are accepted, pending and rejected, and
  every persisted device has the SHA-256 of its raw identity data as its hash and the
  canonical decoding of that data as its decoded identity.
\<close>
theorem migration_scenario:
  assumes devs: "devices S = [d1, d2, d3]"
    and ids: "distinct [Device.Id d1, Device.Id d2, Device.Id d3]"
    and asets: "authSets S = [a1, a2, a3, a4]"
    and a1: "DeviceId a1 = Device.Id d1" "AuthSet.Status a1 = Accepted"
    and a2: "DeviceId a2 = Device.Id d2" "AuthSet.Status a2 = Rejected"
    and a3: "DeviceId a3 = Device.Id d2" "AuthSet.Status a3 = Pending"
    and a4: "DeviceId a4 = Device.Id d3" "AuthSet.Status a4 = Rejected"
    and dec: "\<forall>raw \<in> set (map Device.IdData (devices S) @ map AuthSet.IdData (authSets S)).
                \<exists>st. decode E raw = Inr st"
  shows "\<exists>S'. migration_1_5_0_Up E now S = Inr S'
           \<and> map Device.Status (devices S') = [Accepted, Pending, Rejected]
           \<and> (\<forall>d \<in> set (devices S').
                 Device.IdDataSha256 d = sha256_Sum E (Device.IdData d)
               \<and> decode E (Device.IdData d) = Inr (Device.IdDataStruct d))"
proof -
  define fill :: "AuthSet \<Rightarrow> AuthSet" where "fill a = a\<lparr>AuthSet.IdDataStruct := projr (decode E (AuthSet.IdData a)),
                 AuthSet.IdDataSha256 := sha256_Sum E (AuthSet.IdData a)\<rparr>" for a
  have fill: "backfillAuthSet E a = Inr (fill a)" if "a \<in> set (authSets S)" for a
  proof -
    from dec that obtain st where "decode E (AuthSet.IdData a) = Inr st" by auto
    then show ?thesis by (simp add: backfillAuthSet_def fill_def)
  qed
  have fa: "forEach (backfillAuthSet E) (authSets S) = Inr (map fill (authSets S))"
    by (rule forEach_map) (rule fill)
  let ?as = "map fill (authSets S)"
  have sel: "DeviceId (fill a) = DeviceId a" "AuthSet.Status (fill a) = AuthSet.Status a" for a
    by (simp_all add: fill_def)
  from ids have ne: "Device.Id d1 \<noteq> Device.Id d2" "Device.Id d1 \<noteq> Device.Id d3"
    "Device.Id d2 \<noteq> Device.Id d3" "Device.Id d2 \<noteq> Device.Id d1"
    "Device.Id d3 \<noteq> Device.Id d1" "Device.Id d3 \<noteq> Device.Id d2" by auto
  have s1: "deriveStatus (filter (\<lambda>a. DeviceId a = Device.Id d1) ?as)
              = Inr (Accepted, Some (AuthSet.PubKey (fill a1)))"
    using a1 a2 a3 a4 ne by (simp add: asets sel deriveStatus_def)
  have s2: "deriveStatus (filter (\<lambda>a. DeviceId a = Device.Id d2) ?as) = Inr (Pending, None)"
    using a1 a2 a3 a4 ne by (simp add: asets sel deriveStatus_def)
  have s3: "deriveStatus (filter (\<lambda>a. DeviceId a = Device.Id d3) ?as) = Inr (Rejected, None)"
    using a1 a2 a3 a4 ne by (simp add: asets sel deriveStatus_def)
  from dec devs obtain t1 t2 t3 where "decode E (Device.IdData d1) = Inr t1"
    and "decode E (Device.IdData d2) = Inr t2" and "decode E (Device.IdData d3) = Inr t3"
    by auto
  then obtain r1 r2 r3
    where r1: "backfillDevice E now ?as d1 = Inr r1" "Device.Status r1 = Accepted"
      and r2: "backfillDevice E now ?as d2 = Inr r2" "Device.Status r2 = Pending"
      and r3: "backfillDevice E now ?as d3 = Inr r3" "Device.Status r3 = Rejected"
    using backfillDevice_total [OF _ s1] backfillDevice_total [OF _ s2]
      backfillDevice_total [OF _ s3] by metis
  let ?S' = "\<lparr>devices = [r1, r2, r3], authSets = ?as\<rparr>"
  have m: "migration_1_5_0_Up E now S = Inr ?S'"
    using fa r1 r2 r3 by (simp add: migration_1_5_0_Up_def devs)
  have "map Device.Status (devices ?S') = [Accepted, Pending, Rejected]"
    using r1 r2 r3 by simp
  moreover have "\<forall>d \<in> set (devices ?S').
                 Device.IdDataSha256 d = sha256_Sum E (Device.IdData d)
               \<and> decode E (Device.IdData d) = Inr (Device.IdDataStruct d)"
    using migration_devices(1,2) [OF m] by blast
  ultimately show ?thesis using m by (intro exI [of _ ?S'] conjI)
qed

text \<open>The scenario on the test's rows.\<close>
theorem migration_scenario_witness:
  "migration_1_5_0_Up ex_ident_env 1600000000 ex_store = Inr ex_migrated
   \<and> map Device.Status (devices ex_migrated) = [Accepted, Pending, Rejected]
   \<and> map Device.IdDataSha256 (devices ex_migrated)
     = map (\<lambda>d. sha256_Sum ex_ident_env (Device.IdData d)) (devices ex_migrated)
   \<and> map (\<lambda>d. decode ex_ident_env (Device.IdData d)) (devices ex_migrated)
     = map (\<lambda>d. Inr (Device.IdDataStruct d)) (devices ex_migrated)"
proof -
  have "\<exists>S'. migration_1_5_0_Up ex_ident_env 1600000000 ex_store = Inr S'
           \<and> map Device.Status (devices S') = [Accepted, Pending, Rejected]
           \<and> (\<forall>d \<in> set (devices S').
                 Device.IdDataSha256 d = sha256_Sum ex_ident_env (Device.IdData d)
               \<and> decode ex_ident_env (Device.IdData d) = Inr (Device.IdDataStruct d))"
    by (rule migration_scenario
          [where ?d1.0 = "ex_device ''1'' ex_ident1 Accepted"
             and ?d2.0 = "ex_device ''2'' ex_ident2 Pending"
             and ?d3.0 = "ex_device ''3'' ex_ident3 Rejected"
             and ?a1.0 = "ex_authSet ''1'' ''1'' ex_ident1 Accepted"
             and ?a2.0 = "ex_authSet ''2'' ''2'' ex_ident2' Rejected"
             and ?a3.0 = "ex_authSet ''3'' ''2'' ex_ident2 Pending"
             and ?a4.0 = "ex_authSet ''4'' ''3'' ex_ident3 Rejected"])
       (simp_all add: ex_store_def ex_device_def ex_authSet_def ex_decode)
  then have "map Device.Status (devices ex_migrated) = [Accepted, Pending, Rejected]
           \<and> (\<forall>d \<in> set (devices ex_migrated).
                 Device.IdDataSha256 d = sha256_Sum ex_ident_env (Device.IdData d)
               \<and> decode ex_ident_env (Device.IdData d) = Inr (Device.IdDataStruct d))"
    by (simp add: ex_migration)
  then show ?thesis by (simp add: ex_migration)
qed

end
